theory Spec2Isabelle
  imports Main
begin

section \<open>Nextiva missed-call collector (version 3.6): data model\<close>

text \<open>
  The development follows the class \<^verbatim>\<open>NextivaCollector\<close> of the user script.

  Conventions of the embedding.
  \<^item> A JavaScript \<^verbatim>\<open>Date\<close> is an \<open>int\<close>: milliseconds on the local clock. The local
    clock is taken to run at a fixed whole-minute offset from UTC, so that calendar days
    are the blocks of \<open>86400000\<close> ms and \<^verbatim>\<open>getTime()\<close> differs from the local value
    by a constant only. Order and differences of dates are those of the integers.
  \<^item> Text is a \<open>string\<close> of 8-bit characters.
  \<^item> A JavaScript \<^verbatim>\<open>Set\<close> is a list without repetition in insertion order, a
    \<^verbatim>\<open>Map\<close> an association list in insertion order (\<^verbatim>\<open>slice(-n)\<close> on
    \<^verbatim>\<open>Array.from\<close> of either depends on that order).
  \<^item> The template keys \<^verbatim>\<open>`${phoneNumber}_${time}`\<close> are pairs \<open>(phoneNumber, time)\<close>:
    the number printed after the last underscore determines both components.
  \<^item> Console output is not part of the state. The counters of the performance monitor
    that the collector writes (\<^verbatim>\<open>domQueries\<close>, \<^verbatim>\<open>networkRequests\<close>, \<^verbatim>\<open>errors\<close>)
    are; its list of measured processing times is not.
  \<^item> Timers, the mutation observer, \<^verbatim>\<open>lastTopRecord\<close>, \<^verbatim>\<open>lastKnownRowCount\<close> and
    \<^verbatim>\<open>maxProcessedIndex\<close> are written for display and logging only and are left out.
  \<^item> \<^verbatim>\<open>localStorage.setItem\<close> and \<^verbatim>\<open>GM_xmlhttpRequest\<close> are taken not to throw.
  \<^item> The periodic cleanup, the loading of a stored state, the reports and the buttons are
    not part of the development.
\<close>

record CallRecord =
  timestamp :: int
  contact :: string
  dataIndex :: string
  calledBack :: bool
  isAnswered :: bool

text \<open>An entry of \<^verbatim>\<open>recentCalls\<close>: \<^verbatim>\<open>{time, isMissed, isAnswered}\<close>.\<close>

record recentCall =
  rc_time :: int
  rc_isMissed :: bool
  rc_isAnswered :: bool

text \<open>A value of \<^verbatim>\<open>sentRecords\<close>: \<^verbatim>\<open>{dateTime, number, actualMissedCall}\<close>. The field
  \<open>sr_dateTime\<close> holds the date that \<^verbatim>\<open>formatDateTimeForSheet\<close> renders.\<close>

record sentRecord =
  sr_dateTime :: int
  sr_number :: string
  sr_actualMissedCall :: string

datatype source = RealTimeMonitor | RealTimeUpdate | CallAnsweredAt int

text \<open>The JSON body of a request. \<open>dateTime\<close> and \<open>answerTime\<close> hold the dates that
  \<^verbatim>\<open>formatDateTimeForSheet\<close> renders as \<^verbatim>\<open>MM/DD/YYYY hh:mm AM|PM\<close>.\<close>

record payload =
  dateTime :: int
  number :: string
  frequency :: "nat option"
  actualMissedCall :: string
  isUpdate :: bool
  phoneNumber :: string
  source :: source
  notesText :: "string option"
  answerTime :: "int option"

text \<open>A call of \<^verbatim>\<open>GM_xmlhttpRequest\<close>: the request identifier its callbacks close over,
  and the body.\<close>

record request =
  requestId :: string
  body :: payload

type_synonym recordKey = "string \<times> int"

text \<open>The object written under \<^verbatim>\<open>nextiva_missed_calls\<close>.\<close>

record snapshot =
  sn_records :: "CallRecord list"
  sn_processedIndexes :: "string list"
  sn_realTimeMissedCount :: nat
  sn_monitorStartTime :: "int option"
  sn_sentRecords :: "(recordKey \<times> sentRecord) list"
  sn_processedAnswers :: "recordKey list"

record collector =
  isCollecting :: bool
  isRealTimeMode :: bool
  allRecords :: "CallRecord list"
  processedIndexes :: "string list"
  realTimeMissedCount :: nat
  monitorStartTime :: "int option"
  recentCalls :: "(string \<times> recentCall list) list"
  sentRecords :: "(recordKey \<times> sentRecord) list"
  processedAnswers :: "recordKey list"
  pendingRequests :: "string list"
  domQueries :: nat
  networkRequests :: nat
  errors :: nat
  localStorage :: "snapshot option"

subsection \<open>Sets and maps in insertion order\<close>

definition setAdd :: "'a \<Rightarrow> 'a list \<Rightarrow> 'a list" where
  "setAdd x xs = (if List.member xs x then xs else xs @ [x])"

definition setHas :: "'a list \<Rightarrow> 'a \<Rightarrow> bool" where
  "setHas xs x = List.member xs x"

definition setDelete :: "'a \<Rightarrow> 'a list \<Rightarrow> 'a list" where
  "setDelete x xs = removeAll x xs"

fun mapSet :: "'k \<Rightarrow> 'v \<Rightarrow> ('k \<times> 'v) list \<Rightarrow> ('k \<times> 'v) list" where
  "mapSet k v [] = [(k, v)]"
| "mapSet k v (p # ps) = (if fst p = k then (k, v) # ps else p # mapSet k v ps)"

definition mapHas :: "('k \<times> 'v) list \<Rightarrow> 'k \<Rightarrow> bool" where
  "mapHas m k = List.member (map fst m) k"

definition mapGet :: "('k \<times> 'v) list \<Rightarrow> 'k \<Rightarrow> 'v option" where
  "mapGet m k = map_of m k"

text \<open>\<^verbatim>\<open>xs.slice(-n)\<close>: the last \<open>n\<close> elements, all of them when there are fewer.\<close>

definition sliceLast :: "nat \<Rightarrow> 'a list \<Rightarrow> 'a list" where
  "sliceLast n xs = drop (length xs - n) xs"

section \<open>Persistence\<close>

definition snapshotOf :: "collector \<Rightarrow> snapshot" where
  "snapshotOf s =
     \<lparr> sn_records = sliceLast 100 (allRecords s),
       sn_processedIndexes = sliceLast 300 (processedIndexes s),
       sn_realTimeMissedCount = realTimeMissedCount s,
       sn_monitorStartTime = monitorStartTime s,
       sn_sentRecords = sliceLast 50 (sentRecords s),
       sn_processedAnswers = sliceLast 50 (processedAnswers s) \<rparr>"

definition saveToLocalStorage :: "collector \<Rightarrow> collector" where
  "saveToLocalStorage s = s\<lparr>localStorage := Some (snapshotOf s)\<rparr>"

section \<open>Reading text\<close>

text \<open>The regular expressions of the script are written out as matchers. A matcher that
  can backtrack returns the list of its matches in the order in which the JavaScript
  matcher tries them.\<close>

definition isDigit :: "char \<Rightarrow> bool" where
  "isDigit c = List.member ''0123456789'' c"

text \<open>The characters of \<^verbatim>\<open>\s\<close> below code 256: tab, line feed, vertical tab, form feed,
  carriage return, space, no-break space.\<close>

definition isSpace :: "char \<Rightarrow> bool" where
  "isSpace c = List.member [CHR 0x09, CHR 0x0A, CHR 0x0B, CHR 0x0C, CHR 0x0D, CHR 0x20, CHR 0xA0] c"

definition digitVal :: "char \<Rightarrow> nat" where
  "digitVal c = of_char c - 48"

text \<open>\<^verbatim>\<open>parseInt\<close> on a string of decimal digits.\<close>

definition parseDigits :: "string \<Rightarrow> nat" where
  "parseDigits ds = foldl (\<lambda>a c. 10 * a + digitVal c) 0 ds"

definition trim :: "string \<Rightarrow> string" where
  "trim s = rev (dropWhile isSpace (rev (dropWhile isSpace s)))"

definition startsWith :: "string \<Rightarrow> string \<Rightarrow> bool" where
  "startsWith s pat = (take (length pat) s = pat)"

fun includesText :: "string \<Rightarrow> string \<Rightarrow> bool" where
  "includesText [] pat = (pat = [])"
| "includesText (c # cs) pat = (startsWith (c # cs) pat \<or> includesText cs pat)"

text \<open>A literal under the flag \<^verbatim>\<open>i\<close>, given as the pairs of its lower-case and upper-case
  letters; the result is the text after it.\<close>

fun prefixCI :: "(char \<times> char) list \<Rightarrow> string \<Rightarrow> string option" where
  "prefixCI [] s = Some s"
| "prefixCI (p # ps) [] = None"
| "prefixCI (p # ps) (c # cs) = (if c = fst p \<or> c = snd p then prefixCI ps cs else None)"

definition literalCI :: "string \<Rightarrow> string \<Rightarrow> (char \<times> char) list" where
  "literalCI lower upper = zip lower upper"

text \<open>\<^verbatim>\<open>\d{n}\<close>: the digits read and the text after them.\<close>

definition digitsN :: "nat \<Rightarrow> string \<Rightarrow> (string \<times> string) option" where
  "digitsN n s = (if n \<le> length s \<and> list_all isDigit (take n s)
                  then Some (take n s, drop n s) else None)"

text \<open>\<^verbatim>\<open>(\d{1,2})\<close> followed by the character \<open>sep\<close>: two digits are tried first; one digit
  followed by a second digit cannot be followed by \<open>sep\<close>, so the two cases exclude each
  other.\<close>

definition digits12 :: "char \<Rightarrow> string \<Rightarrow> (nat \<times> string) option" where
  "digits12 sep s =
     (case s of
        a # b # c # r \<Rightarrow>
          if isDigit a \<and> isDigit b \<and> c = sep then Some (parseDigits [a, b], r)
          else if isDigit a \<and> b = sep then Some (parseDigits [a], c # r)
          else None
      | [a, b] \<Rightarrow> if isDigit a \<and> b = sep then Some (parseDigits [a], []) else None
      | _ \<Rightarrow> None)"

text \<open>\<^verbatim>\<open>(\d{1,2}):(\d{2})\<close>: hours, minutes and the text after them.\<close>

definition clock :: "string \<Rightarrow> (nat \<times> nat \<times> string) option" where
  "clock s =
     (case digits12 (CHR '':'') s of
        None \<Rightarrow> None
      | Some (h, r) \<Rightarrow>
          (case digitsN 2 r of
             None \<Rightarrow> None
           | Some (m, r') \<Rightarrow> Some (h, parseDigits m, r')))"

datatype period = AM | PM

text \<open>\<^verbatim>\<open>\s*([AP]M)?\<close> under the flag \<^verbatim>\<open>i\<close>, with \<^verbatim>\<open>toUpperCase\<close> applied to the group:
  \<open>None\<close> when the group does not take part in the match.\<close>

definition periodOf :: "string \<Rightarrow> period option" where
  "periodOf r =
     (case dropWhile isSpace r of
        a # b # _ \<Rightarrow>
          if b = CHR ''M'' \<or> b = CHR ''m'' then
            (if a = CHR ''A'' \<or> a = CHR ''a'' then Some AM
             else if a = CHR ''P'' \<or> a = CHR ''p'' then Some PM
             else None)
          else None
      | _ \<Rightarrow> None)"

text \<open>\<^verbatim>\<open>if (period === 'PM' && hours !== 12) hours += 12;
  if (period === 'AM' && hours === 12) hours = 0;\<close>\<close>

definition hours24 :: "nat \<Rightarrow> period option \<Rightarrow> nat" where
  "hours24 hours p =
     (let h1 = (if p = Some PM \<and> hours \<noteq> 12 then hours + 12 else hours)
      in if p = Some AM \<and> h1 = 12 then 0 else h1)"

section \<open>Dates\<close>

definition dayMs :: int where
  "dayMs = 86400000"

definition hourMs :: int where
  "hourMs = 3600000"

definition minuteMs :: int where
  "minuteMs = 60000"

text \<open>\<^verbatim>\<open>date.setHours(hours, minutes, 0, 0)\<close>: the same calendar day at the given clock time
  (hours beyond 23 and minutes beyond 59 carry over, as in JavaScript).\<close>

definition setHours :: "int \<Rightarrow> nat \<Rightarrow> nat \<Rightarrow> int" where
  "setHours date hours minutes = date - date mod dayMs + int hours * hourMs + int minutes * minuteMs"

text \<open>\<^verbatim>\<open>date.setDate(date.getDate() - n)\<close>\<close>

definition daysBefore :: "int \<Rightarrow> nat \<Rightarrow> int" where
  "daysBefore date n = date - int n * dayMs"

text \<open>\<^verbatim>\<open>d.getDate() === now.getDate() && d.getMonth() === now.getMonth() &&
  d.getFullYear() === now.getFullYear()\<close>\<close>

definition sameDate :: "int \<Rightarrow> int \<Rightarrow> bool" where
  "sameDate d now = (d div dayMs = now div dayMs)"

text \<open>\<^verbatim>\<open>getDay()\<close>: day 0 of the clock is a Thursday.\<close>

definition getDay :: "int \<Rightarrow> nat" where
  "getDay date = nat ((date div dayMs + 4) mod 7)"

text \<open>\<^verbatim>\<open>setSeconds(0, 0)\<close>\<close>

definition setSeconds0 :: "int \<Rightarrow> int" where
  "setSeconds0 date = date - date mod minuteMs"

subsection \<open>parseDateTime\<close>

text \<open>\<^verbatim>\<open>/Yesterday\s*(\d{1,2}):(\d{2})(?:\s*([AP]M))?/i\<close> at the start of \<open>s\<close>.\<close>

definition yesterdayAt :: "string \<Rightarrow> (nat \<times> nat \<times> string) option" where
  "yesterdayAt s =
     (case prefixCI (literalCI ''yesterday'' ''YESTERDAY'') s of
        None \<Rightarrow> None
      | Some r \<Rightarrow> clock (dropWhile isSpace r))"

text \<open>The same expression is not anchored: the first position at which it matches.\<close>

fun yesterdayMatch :: "string \<Rightarrow> (nat \<times> nat \<times> string) option" where
  "yesterdayMatch [] = None"
| "yesterdayMatch (c # cs) =
     (case yesterdayAt (c # cs) of
        Some m \<Rightarrow> Some m
      | None \<Rightarrow> yesterdayMatch cs)"

text \<open>\<open>dateParse\<close> stands for the built-in \<^verbatim>\<open>Date.parse\<close> (\<open>None\<close> for \<^verbatim>\<open>NaN\<close>), \<open>now\<close>
  for \<^verbatim>\<open>new Date()\<close>.\<close>

definition parseDateTime :: "(string \<Rightarrow> int option) \<Rightarrow> int \<Rightarrow> string \<Rightarrow> int list \<Rightarrow> int option" where
  "parseDateTime dateParse now text lowerRowDates =
     (case clock text of
        Some (h, minutes, r) \<Rightarrow> Some (setHours now (hours24 h (periodOf r)) minutes)
      | None \<Rightarrow>
          (case yesterdayMatch text of
             Some (h, minutes, r) \<Rightarrow>
               (let hours = hours24 h (periodOf r);
                    date = setHours (daysBefore now 1) hours minutes
                in if list_ex (\<lambda>d. sameDate d now) lowerRowDates
                   then Some (setHours now hours minutes)
                   else Some date)
           | None \<Rightarrow> dateParse text))"

subsection \<open>parseAnyDateTime\<close>

text \<open>\<^verbatim>\<open>(Monday|Tuesday|Wednesday|Thursday|Friday|Saturday|Sunday)\<close> under the flag \<^verbatim>\<open>i\<close>,
  in the order of the alternatives, each with its index in \<^verbatim>\<open>dayNames\<close>
  (\<^verbatim>\<open>sunday\<close> is 0).\<close>

definition dayAlternatives :: "((char \<times> char) list \<times> nat) list" where
  "dayAlternatives =
     [(literalCI ''monday'' ''MONDAY'', 1),
      (literalCI ''tuesday'' ''TUESDAY'', 2),
      (literalCI ''wednesday'' ''WEDNESDAY'', 3),
      (literalCI ''thursday'' ''THURSDAY'', 4),
      (literalCI ''friday'' ''FRIDAY'', 5),
      (literalCI ''saturday'' ''SATURDAY'', 6),
      (literalCI ''sunday'' ''SUNDAY'', 0)]"

fun dayName :: "((char \<times> char) list \<times> nat) list \<Rightarrow> string \<Rightarrow> (nat \<times> string) option" where
  "dayName [] s = None"
| "dayName (a # as) s =
     (case prefixCI (fst a) s of
        Some r \<Rightarrow> Some (snd a, r)
      | None \<Rightarrow> dayName as s)"

text \<open>\<^verbatim>\<open>/^(Monday|...|Sunday)\s+(\d{1,2}):(\d{2})\s*([AP]M)?/i\<close>: the index of the day, hours,
  minutes and the period.\<close>

definition dayOfWeekMatch :: "string \<Rightarrow> (nat \<times> nat \<times> nat \<times> period option) option" where
  "dayOfWeekMatch s =
     (case dayName dayAlternatives s of
        None \<Rightarrow> None
      | Some (targetDayIndex, r) \<Rightarrow>
          (case r of
             [] \<Rightarrow> None
           | c # r' \<Rightarrow>
               if isSpace c then
                 (case clock (dropWhile isSpace r') of
                    None \<Rightarrow> None
                  | Some (h, m, r'') \<Rightarrow> Some (targetDayIndex, h, m, periodOf r''))
               else None))"

text \<open>\<^verbatim>\<open>/^(\d{1,2})\/(\d{1,2})\/(\d{4})\s*(\d{1,2}):(\d{2})\s*([AP]M)?/i\<close>: month, day, year,
  hours, minutes and the period.\<close>

definition slashDateMatch :: "string \<Rightarrow> (nat \<times> nat \<times> nat \<times> nat \<times> nat \<times> period option) option" where
  "slashDateMatch s =
     (case digits12 (CHR ''/'') s of
        None \<Rightarrow> None
      | Some (month, r1) \<Rightarrow>
          (case digits12 (CHR ''/'') r1 of
             None \<Rightarrow> None
           | Some (day, r2) \<Rightarrow>
               (case digitsN 4 r2 of
                  None \<Rightarrow> None
                | Some (year, r3) \<Rightarrow>
                    (case clock (dropWhile isSpace r3) of
                       None \<Rightarrow> None
                     | Some (h, m, r4) \<Rightarrow>
                         Some (month, day, parseDigits year, h, m, periodOf r4)))))"

text \<open>\<open>newDate year month day hours minutes\<close> stands for the built-in constructor
  \<^verbatim>\<open>new Date(year, month, day, hours, minutes)\<close>; the month passed is
  \<^verbatim>\<open>parseInt(month) - 1\<close>, an \<open>int\<close> since a month \<^verbatim>\<open>0\<close> gives \<open>-1\<close>.\<close>

definition parseAnyDateTime ::
  "(string \<Rightarrow> int option) \<Rightarrow> (nat \<Rightarrow> int \<Rightarrow> nat \<Rightarrow> nat \<Rightarrow> nat \<Rightarrow> int) \<Rightarrow> int \<Rightarrow> string \<Rightarrow> int option" where
  "parseAnyDateTime dateParse newDate now text =
     (if text = [] then None
      else
        (case dayOfWeekMatch text of
           Some (targetDayIndex, hour, minute, p) \<Rightarrow>
             (let currentDayIndex = getDay now;
                  daysAgo0 = int currentDayIndex - int targetDayIndex;
                  daysAgo = (if daysAgo0 \<le> 0 then daysAgo0 + 7 else daysAgo0);
                  hour24 = hours24 hour p
              in Some (setHours (daysBefore now (nat daysAgo)) hour24 minute))
         | None \<Rightarrow>
             (case slashDateMatch text of
                Some (month, day, year, hour, minute, p) \<Rightarrow>
                  Some (newDate year (int month - 1) day (hours24 hour p) minute)
              | None \<Rightarrow> dateParse text)))"

section \<open>Contacts and phone numbers\<close>

text \<open>\<^verbatim>\<open>x?\<close> for a class of characters: the character is taken first, skipped second.\<close>

definition optChar :: "(char \<Rightarrow> bool) \<Rightarrow> string \<Rightarrow> string list" where
  "optChar p s =
     (case s of
        [] \<Rightarrow> [[]]
      | c # cs \<Rightarrow> if p c then [cs, c # cs] else [c # cs])"

text \<open>\<^verbatim>\<open>x*\<close> for a class of characters: the longest run first.\<close>

fun starChar :: "(char \<Rightarrow> bool) \<Rightarrow> string \<Rightarrow> string list" where
  "starChar p [] = [[]]"
| "starChar p (c # cs) = (if p c then starChar p cs @ [c # cs] else [c # cs])"

definition digitsNL :: "nat \<Rightarrow> string \<Rightarrow> (string \<times> string) list" where
  "digitsNL n s = (case digitsN n s of None \<Rightarrow> [] | Some m \<Rightarrow> [m])"

text \<open>\<^verbatim>\<open>[-.\s]\<close>\<close>

definition isSeparator :: "char \<Rightarrow> bool" where
  "isSeparator c = (c = CHR ''-'' \<or> c = CHR ''.'' \<or> isSpace c)"

text \<open>\<^verbatim>\<open>/\+?1?\s*\(?(\d{3})\)?[-.\s]?(\d{3})[-.\s]?(\d{4})/\<close> at the start of \<open>s\<close>: the three
  groups and the text after the match, for every way of matching, in the matcher's order.\<close>

definition phoneAt :: "string \<Rightarrow> ((string \<times> string \<times> string) \<times> string) list" where
  "phoneAt s =
     [((g1, g2, g3), r10).
        r1 \<leftarrow> optChar (\<lambda>c. c = CHR ''+'') s,
        r2 \<leftarrow> optChar (\<lambda>c. c = CHR ''1'') r1,
        r3 \<leftarrow> starChar isSpace r2,
        r4 \<leftarrow> optChar (\<lambda>c. c = CHR ''('') r3,
        (g1, r5) \<leftarrow> digitsNL 3 r4,
        r6 \<leftarrow> optChar (\<lambda>c. c = CHR '')'') r5,
        r7 \<leftarrow> optChar isSeparator r6,
        (g2, r8) \<leftarrow> digitsNL 3 r7,
        r9 \<leftarrow> optChar isSeparator r8,
        (g3, r10) \<leftarrow> digitsNL 4 r9]"

text \<open>The first position at which the expression matches: the text before the match, the
  groups and the text after the match.\<close>

fun phoneSearch :: "string \<Rightarrow> string \<Rightarrow> (string \<times> (string \<times> string \<times> string) \<times> string) option" where
  "phoneSearch pre [] = None"
| "phoneSearch pre (c # cs) =
     (case phoneAt (c # cs) of
        m # _ \<Rightarrow> Some (pre, fst m, snd m)
      | [] \<Rightarrow> phoneSearch (pre @ [c]) cs)"

definition phoneMatch :: "string \<Rightarrow> (string \<times> (string \<times> string \<times> string) \<times> string) option" where
  "phoneMatch s = phoneSearch [] s"

definition extractPhoneNumber :: "string \<Rightarrow> string" where
  "extractPhoneNumber contactStr =
     (case phoneMatch contactStr of
        Some (_, (g1, g2, g3), _) \<Rightarrow> g1 @ g2 @ g3
      | None \<Rightarrow> contactStr)"

text \<open>\<^verbatim>\<open>`(${phoneMatch[1]})${phoneMatch[2]}-${phoneMatch[3]}`\<close>\<close>

definition formatPhone :: "string \<times> string \<times> string \<Rightarrow> string" where
  "formatPhone g = (case g of (g1, g2, g3) \<Rightarrow> ''('' @ g1 @ '')'' @ g2 @ ''-'' @ g3)"

text \<open>What the collector reads of a row of the live view: the text of the card, the
  attribute \<^verbatim>\<open>data-index\<close> of the enclosing element (\<open>None\<close> when there is none), and the
  texts of the timestamp, sender and caller-info elements (\<open>None\<close> when absent).\<close>

record row =
  textContent :: string
  dataIndexAttr :: "string option"
  timestampText :: "string option"
  senderText :: "string option"
  callerInfoText :: "string option"

definition extractPhoneFromRow :: "row \<Rightarrow> string option" where
  "extractPhoneFromRow r =
     (case (case callerInfoText r of
              None \<Rightarrow> None
            | Some t \<Rightarrow> phoneMatch (trim t)) of
        Some (_, g, _) \<Rightarrow> Some (formatPhone g)
      | None \<Rightarrow>
          (case phoneMatch (textContent r) of
             Some (_, g, _) \<Rightarrow> Some (formatPhone g)
           | None \<Rightarrow> None))"

text \<open>\<^verbatim>\<open>contact.trim().replace(/[\s\-\(\)\+\.]/g, '').match(/^1?\d{10}$/)\<close>\<close>

definition isBarePhone :: "string \<Rightarrow> bool" where
  "isBarePhone contactStr =
     (let t = filter (\<lambda>c. \<not> (isSpace c \<or> List.member ''-()+.'' c)) (trim contactStr)
      in list_all isDigit t \<and> (length t = 10 \<or> (length t = 11 \<and> hd t = CHR ''1'')))"

text \<open>The result is the pair \<^verbatim>\<open>(displayNumber, contactName)\<close>; \<open>None\<close> is \<^verbatim>\<open>null\<close>.\<close>

definition separateContactInfo :: "string \<Rightarrow> row option \<Rightarrow> string \<times> string option" where
  "separateContactInfo contactStr r =
     (case phoneMatch contactStr of
        Some (pre, g, after) \<Rightarrow>
          if isBarePhone contactStr then (formatPhone g, None)
          else (let nameWithoutPhone = trim (pre @ after)
                in (formatPhone g, if nameWithoutPhone = [] then None else Some nameWithoutPhone))
      | None \<Rightarrow>
          (case (case r of None \<Rightarrow> None | Some rw \<Rightarrow> extractPhoneFromRow rw) of
             Some phoneFromRow \<Rightarrow> (phoneFromRow, Some contactStr)
           | None \<Rightarrow> (contactStr, Some contactStr)))"

section \<open>The recent-call window\<close>

definition recentCallsOf :: "collector \<Rightarrow> string \<Rightarrow> recentCall list" where
  "recentCallsOf s phone = (case mapGet (recentCalls s) phone of None \<Rightarrow> [] | Some calls \<Rightarrow> calls)"

definition isActualMissedCall :: "collector \<Rightarrow> string \<Rightarrow> int \<Rightarrow> string" where
  "isActualMissedCall s phone ts =
     (let oneHourAgo = ts - 60 * 60 * 1000;
          oneHourLater = ts + 60 * 60 * 1000
      in if list_ex (\<lambda>call. rc_time call > oneHourAgo \<and> rc_time call < oneHourLater \<and> rc_isAnswered call)
              (recentCallsOf s phone)
         then ''No'' else ''Yes'')"

text \<open>\<open>now\<close> is \<^verbatim>\<open>Date.now()\<close>.\<close>

definition updateRecentCalls :: "int \<Rightarrow> collector \<Rightarrow> string \<Rightarrow> int \<Rightarrow> bool \<Rightarrow> bool \<Rightarrow> collector" where
  "updateRecentCalls now s phone ts missed answered =
     (let calls = recentCallsOf s phone @ [\<lparr>rc_time = ts, rc_isMissed = missed, rc_isAnswered = answered\<rparr>];
          twoHoursAgo = now - 2 * 60 * 60 * 1000;
          kept = sliceLast 10 (filter (\<lambda>call. rc_time call > twoHoursAgo) calls)
      in s\<lparr>recentCalls := mapSet phone kept (recentCalls s)\<rparr>)"

section \<open>Deliveries\<close>

text \<open>\<open>rid\<close> is the request identifier \<^verbatim>\<open>`${Date.now()}_${Math.random()}`\<close>, drawn by the
  environment. The result is the new state and the requests handed to
  \<^verbatim>\<open>GM_xmlhttpRequest\<close>.\<close>

definition sendToGoogleSheets :: "string \<Rightarrow> collector \<Rightarrow> CallRecord \<Rightarrow> bool \<Rightarrow> collector \<times> request list" where
  "sendToGoogleSheets rid s record isUpd =
     (if \<not> isRealTimeMode s then (s, [])
      else
        (let s1 = s\<lparr>networkRequests := networkRequests s + 1\<rparr>;
             phone = extractPhoneNumber (contact record);
             actual = isActualMissedCall s1 phone (timestamp record);
             contactInfo = separateContactInfo (contact record) None;
             data = \<lparr> dateTime = timestamp record,
                      number = fst contactInfo,
                      frequency = Some 1,
                      actualMissedCall = actual,
                      isUpdate = isUpd,
                      phoneNumber = phone,
                      source = (if isUpd then RealTimeUpdate else RealTimeMonitor),
                      notesText = snd contactInfo,
                      answerTime = None \<rparr>;
             recordKey = (phone, timestamp record);
             s2 = s1\<lparr>sentRecords :=
                       mapSet recordKey
                         \<lparr> sr_dateTime = dateTime data, sr_number = number data,
                           sr_actualMissedCall = actual \<rparr>
                         (sentRecords s1)\<rparr>;
             s3 = s2\<lparr>pendingRequests := setAdd rid (pendingRequests s2)\<rparr>
         in (s3, [\<lparr>requestId = rid, body = data\<rparr>])))"

text \<open>The callbacks of a request, of \<^verbatim>\<open>sendToGoogleSheets\<close> and of
  \<^verbatim>\<open>updateMissedCallsAfterAnswer\<close> alike. After the removal of the identifier
  \<^verbatim>\<open>onload\<close> only writes to the console, whatever the mode and the status.\<close>

definition onload :: "collector \<Rightarrow> string \<Rightarrow> nat \<Rightarrow> collector" where
  "onload s rid status =
     (let s1 = s\<lparr>pendingRequests := setDelete rid (pendingRequests s)\<rparr>
      in if \<not> isRealTimeMode s1 then s1
         else if status = 200 then s1
         else s1)"

definition onerror :: "collector \<Rightarrow> string \<Rightarrow> collector" where
  "onerror s rid =
     (let s1 = s\<lparr>pendingRequests := setDelete rid (pendingRequests s)\<rparr>
      in s1\<lparr>errors := errors s1 + 1\<rparr>)"

definition ontimeout :: "collector \<Rightarrow> string \<Rightarrow> collector" where
  "ontimeout s rid = s\<lparr>pendingRequests := setDelete rid (pendingRequests s)\<rparr>"

section \<open>Reconciliation after an answered call\<close>

definition updateData :: "string \<Rightarrow> int \<Rightarrow> CallRecord \<Rightarrow> payload" where
  "updateData phone answerTimestamp record =
     (let contactInfo = separateContactInfo (contact record) None
      in \<lparr> dateTime = timestamp record,
           number = fst contactInfo,
           frequency = None,
           actualMissedCall = ''No'',
           isUpdate = True,
           phoneNumber = phone,
           source = CallAnsweredAt answerTimestamp,
           notesText = snd contactInfo,
           answerTime = Some answerTimestamp \<rparr>)"

text \<open>The first loop of \<^verbatim>\<open>updateMissedCallsAfterAnswer\<close>.\<close>

definition affectedRecords :: "collector \<Rightarrow> string \<Rightarrow> int \<Rightarrow> CallRecord list" where
  "affectedRecords s phone answerTimestamp =
     (let oneHourAgo = answerTimestamp - 60 * 60 * 1000
      in filter (\<lambda>record.
                   extractPhoneNumber (contact record) = phone \<and>
                   timestamp record > oneHourAgo \<and>
                   timestamp record < answerTimestamp \<and>
                   mapHas (sentRecords s) (phone, timestamp record))
           (allRecords s))"

text \<open>The second loop, over \<^verbatim>\<open>affectedRecords.slice(0, 3)\<close>. \<open>ids i\<close> is the tail
  \<^verbatim>\<open>`${Date.now()}_${Math.random()}`\<close> of the identifier drawn in iteration \<open>i\<close>.
  The loop is left when real-time mode is off.\<close>

fun sendUpdates :: "(nat \<Rightarrow> string) \<Rightarrow> string \<Rightarrow> int \<Rightarrow> nat \<Rightarrow> CallRecord list \<Rightarrow> collector \<Rightarrow> collector \<times> request list" where
  "sendUpdates ids phone answerTimestamp i [] s = (s, [])"
| "sendUpdates ids phone answerTimestamp i (record # records) s =
     (if \<not> isRealTimeMode s then (s, [])
      else
        (let rid = ''update_'' @ ids i;
             s1 = s\<lparr>pendingRequests := setAdd rid (pendingRequests s)\<rparr>;
             rest = sendUpdates ids phone answerTimestamp (Suc i) records s1
         in (fst rest, \<lparr>requestId = rid, body = updateData phone answerTimestamp record\<rparr> # snd rest)))"

text \<open>The result is the new state, the returned count and the requests sent.\<close>

definition updateMissedCallsAfterAnswer ::
  "(nat \<Rightarrow> string) \<Rightarrow> collector \<Rightarrow> string \<Rightarrow> int \<Rightarrow> collector \<times> nat \<times> request list" where
  "updateMissedCallsAfterAnswer ids s phone answerTimestamp =
     (if \<not> isRealTimeMode s then (s, 0, [])
      else
        (let answerKey = (phone, setSeconds0 answerTimestamp)
         in if setHas (processedAnswers s) answerKey then (s, 0, [])
            else
              (let affected = affectedRecords s phone answerTimestamp;
                   sent = sendUpdates ids phone answerTimestamp 0 (take 3 affected) s;
                   s1 = (fst sent)\<lparr>processedAnswers := setAdd answerKey (processedAnswers (fst sent))\<rparr>;
                   s2 = (if length affected > 0 then saveToLocalStorage s1 else s1)
               in (s2, length affected, snd sent))))"

section \<open>Starting and stopping\<close>

definition clearLocalStorage :: "collector \<Rightarrow> collector" where
  "clearLocalStorage s =
     s\<lparr> localStorage := None,
        allRecords := [],
        processedIndexes := [],
        realTimeMissedCount := 0,
        monitorStartTime := None,
        sentRecords := [],
        pendingRequests := [] \<rparr>"

definition stopRealTimeMode :: "bool \<Rightarrow> collector \<Rightarrow> collector" where
  "stopRealTimeMode skipDownload s =
     (if \<not> isRealTimeMode s then s
      else
        (let s1 = s\<lparr>isRealTimeMode := False\<rparr>;
             s2 = (if length (pendingRequests s1) > 0 then s1\<lparr>pendingRequests := []\<rparr> else s1)
         in if \<not> skipDownload
            then (clearLocalStorage s2)\<lparr>realTimeMissedCount := 0, monitorStartTime := None\<rparr>
            else s2))"

definition startRealTimeMode :: "int \<Rightarrow> collector \<Rightarrow> collector" where
  "startRealTimeMode now s =
     (let s1 = (if isRealTimeMode s then stopRealTimeMode True s else s)
      in s1\<lparr> isRealTimeMode := True,
            isCollecting := False,
            realTimeMissedCount := 0,
            monitorStartTime := Some now,
            allRecords := [],
            processedIndexes := [],
            recentCalls := [],
            sentRecords := [],
            processedAnswers := [] \<rparr>)"

text \<open>The state the constructor leaves when nothing is stored.\<close>

definition newCollector :: collector where
  "newCollector =
     \<lparr> isCollecting = False, isRealTimeMode = False, allRecords = [], processedIndexes = [],
       realTimeMissedCount = 0, monitorStartTime = None, recentCalls = [], sentRecords = [],
       processedAnswers = [], pendingRequests = [], domQueries = 0, networkRequests = 0,
       errors = 0, localStorage = None \<rparr>"

section \<open>The real-time path\<close>

definition isMissedCallRow :: "row \<Rightarrow> bool" where
  "isMissedCallRow r = includesText (textContent r) ''Missed call''"

definition isAnsweredCallRow :: "row \<Rightarrow> bool" where
  "isAnsweredCallRow r =
     (includesText (textContent r) ''Incoming call answered by'' \<or>
      includesText (textContent r) ''Incoming call'')"

text \<open>\<^verbatim>\<open>this.monitorStartTime && timestamp <= this.monitorStartTime\<close>\<close>

definition notAfterStart :: "collector \<Rightarrow> int \<Rightarrow> bool" where
  "notAfterStart s ts = (case monitorStartTime s of None \<Rightarrow> False | Some t0 \<Rightarrow> ts \<le> t0)"

text \<open>\<^verbatim>\<open>this.allRecords.some(record => record.contact === contact &&
  record.timestamp.getTime() === timestamp.getTime())\<close>\<close>

definition recordExists :: "collector \<Rightarrow> string \<Rightarrow> int \<Rightarrow> bool" where
  "recordExists s contactStr ts =
     list_ex (\<lambda>record. contact record = contactStr \<and> timestamp record = ts) (allRecords s)"

text \<open>\<^verbatim>\<open>new CallRecord(timestamp, contact, dataIndex)\<close>\<close>

definition newCallRecord :: "int \<Rightarrow> string \<Rightarrow> string \<Rightarrow> CallRecord" where
  "newCallRecord ts contactStr idx =
     \<lparr> timestamp = ts, contact = contactStr, dataIndex = idx, calledBack = False, isAnswered = False \<rparr>"

text \<open>\<open>topRow\<close> is the first card of the view, \<open>None\<close> when there is none. The result is
  the new state and the requests sent.\<close>

definition checkForNewCalls ::
  "(string \<Rightarrow> int option) \<Rightarrow> int \<Rightarrow> (nat \<Rightarrow> string) \<Rightarrow> collector \<Rightarrow> row option \<Rightarrow> collector \<times> request list" where
  "checkForNewCalls dateParse now ids s topRow =
     (let s0 = s\<lparr>domQueries := domQueries s + 1\<rparr>
      in case topRow of
           None \<Rightarrow> (s0, [])
         | Some r \<Rightarrow>
             (case dataIndexAttr r of
                None \<Rightarrow> (s0, [])
              | Some idx \<Rightarrow>
                  (case timestampText r of
                     None \<Rightarrow> (s0, [])
                   | Some tsText \<Rightarrow>
                       (case senderText r of
                          None \<Rightarrow> (s0, [])
                        | Some sender \<Rightarrow>
                            (let contactStr = fst (separateContactInfo (trim sender) (Some r))
                             in case parseDateTime dateParse now tsText [] of
                                  None \<Rightarrow> (s0, [])
                                | Some ts \<Rightarrow>
                                    if notAfterStart s0 ts then (s0, [])
                                    else
                                      (let phone = extractPhoneNumber contactStr;
                                           s1 = updateRecentCalls now s0 phone ts
                                                  (isMissedCallRow r) (isAnsweredCallRow r)
                                       in if isAnsweredCallRow r then
                                            (let u = updateMissedCallsAfterAnswer ids s1 phone ts
                                             in (fst u, snd (snd u)))
                                          else if isMissedCallRow r then
                                            (if \<not> recordExists s1 contactStr ts then
                                               (let record = newCallRecord ts contactStr idx;
                                                    s2 = s1\<lparr> allRecords := allRecords s1 @ [record],
                                                              realTimeMissedCount := realTimeMissedCount s1 + 1 \<rparr>;
                                                    sent = sendToGoogleSheets (ids 0) s2 record False
                                                in (saveToLocalStorage (fst sent), snd sent))
                                             else (s1, []))
                                          else (s1, [])))))))"

section \<open>The bulk path\<close>

text \<open>The first pass of \<^verbatim>\<open>collectRecords\<close> over the rows: the dates of all rows that
  \<^verbatim>\<open>parseDateTime\<close> reads without sibling dates.\<close>

definition lowerRowDatesOf :: "(string \<Rightarrow> int option) \<Rightarrow> int \<Rightarrow> row list \<Rightarrow> int list" where
  "lowerRowDatesOf dateParse now rows =
     concat (map (\<lambda>r. case timestampText r of
                         None \<Rightarrow> []
                       | Some tsText \<Rightarrow>
                           (case parseDateTime dateParse now tsText [] of
                              None \<Rightarrow> []
                            | Some ts \<Rightarrow> [ts])) rows)"

text \<open>The timestamp of a row in the bulk path: \<^verbatim>\<open>parseDateTime\<close>, then
  \<^verbatim>\<open>parseAnyDateTime\<close>.\<close>

definition bulkTimestamp ::
  "(string \<Rightarrow> int option) \<Rightarrow> (nat \<Rightarrow> int \<Rightarrow> nat \<Rightarrow> nat \<Rightarrow> nat \<Rightarrow> int) \<Rightarrow> int \<Rightarrow> int list \<Rightarrow> string \<Rightarrow> int option" where
  "bulkTimestamp dateParse newDate now lowerRowDates tsText =
     (case parseDateTime dateParse now tsText lowerRowDates of
        Some ts \<Rightarrow> Some ts
      | None \<Rightarrow> parseAnyDateTime dateParse newDate now tsText)"

text \<open>One iteration of the second loop of \<^verbatim>\<open>collectRecords\<close>.\<close>

definition collectRow ::
  "(string \<Rightarrow> int option) \<Rightarrow> (nat \<Rightarrow> int \<Rightarrow> nat \<Rightarrow> nat \<Rightarrow> nat \<Rightarrow> int) \<Rightarrow> int \<Rightarrow> int list \<Rightarrow> collector \<Rightarrow> row \<Rightarrow> collector" where
  "collectRow dateParse newDate now lowerRowDates s r =
     (case dataIndexAttr r of
        None \<Rightarrow> s
      | Some idx \<Rightarrow>
          if setHas (processedIndexes s) idx then s
          else if \<not> isMissedCallRow r \<and> \<not> isAnsweredCallRow r
          then s\<lparr>processedIndexes := setAdd idx (processedIndexes s)\<rparr>
          else
            (case timestampText r of
               None \<Rightarrow> s
             | Some tsText \<Rightarrow>
                 (case senderText r of
                    None \<Rightarrow> s
                  | Some sender \<Rightarrow>
                      (let contactStr = fst (separateContactInfo (trim sender) (Some r))
                       in case bulkTimestamp dateParse newDate now lowerRowDates tsText of
                            None \<Rightarrow> s\<lparr>processedIndexes := setAdd idx (processedIndexes s)\<rparr>
                          | Some ts \<Rightarrow>
                              (let phone = extractPhoneNumber contactStr;
                                   s1 = updateRecentCalls now s phone ts
                                          (isMissedCallRow r) (isAnsweredCallRow r);
                                   s2 = (if isMissedCallRow r
                                         then s1\<lparr>allRecords := allRecords s1 @ [newCallRecord ts contactStr idx]\<rparr>
                                         else s1)
                               in s2\<lparr>processedIndexes := setAdd idx (processedIndexes s2)\<rparr>)))))"

definition collectRecords ::
  "(string \<Rightarrow> int option) \<Rightarrow> (nat \<Rightarrow> int \<Rightarrow> nat \<Rightarrow> nat \<Rightarrow> nat \<Rightarrow> int) \<Rightarrow> int \<Rightarrow> collector \<Rightarrow> row list \<Rightarrow> collector" where
  "collectRecords dateParse newDate now s rows =
     foldl (collectRow dateParse newDate now (lowerRowDatesOf dateParse now rows)) s rows"

section \<open>Keys of the stored records\<close>

text \<open>The pairs \<^verbatim>\<open>(contact, timestamp)\<close> of the stored records, in the order of the store;
  \<^verbatim>\<open>checkForNewCalls\<close> compares a new call with them.\<close>

definition recordKeys :: "collector \<Rightarrow> (string \<times> int) list" where
  "recordKeys s = map (\<lambda>record. (contact record, timestamp record)) (allRecords s)"

section \<open>Example rows and states\<close>

text \<open>The rows of the end-to-end scenarios: a missed call at 2:15 PM, the same call under
  another index, answered calls of the same number at 2:40 PM and at 3:15 PM, a row whose
  timestamp no strategy reads, and the two rows of the midnight scenario.\<close>

definition exRow :: "string \<Rightarrow> string \<Rightarrow> string \<Rightarrow> row" where
  "exRow idx kind tsText =
     \<lparr> textContent = ''(555)123-4567 '' @ kind @ '' '' @ tsText,
       dataIndexAttr = Some idx,
       timestampText = Some tsText,
       senderText = Some ''(555)123-4567'',
       callerInfoText = None \<rparr>"

definition exMissedRow :: row where
  "exMissedRow = exRow ''7'' ''Missed call'' ''2:15 PM''"

definition exMissedRowAgain :: row where
  "exMissedRowAgain = exRow ''8'' ''Missed call'' ''2:15 PM''"

definition exAnsweredRow :: row where
  "exAnsweredRow = exRow ''9'' ''Incoming call answered by X'' ''2:40 PM''"

definition exAnsweredRowLate :: row where
  "exAnsweredRowLate = exRow ''9'' ''Incoming call answered by X'' ''3:15 PM''"

definition exUnreadableRow :: row where
  "exUnreadableRow = exRow ''5'' ''Missed call'' ''a while ago''"

definition exYesterdayRow :: row where
  "exYesterdayRow = exRow ''3'' ''Missed call'' ''Yesterday 11:50 PM''"

definition exMidnightRow :: row where
  "exMidnightRow = exRow ''2'' ''Missed call'' ''12:05 AM''"

text \<open>Day 20000 of the clock; monitoring starts at 8:00, the rows are seen at 15:30.\<close>

definition exDay :: int where
  "exDay = 20000 * 86400000"

definition exNow :: int where
  "exNow = exDay + 15 * 3600000 + 30 * 60000"

definition exDateParse :: "string \<Rightarrow> int option" where
  "exDateParse t = None"

definition exNewDate :: "nat \<Rightarrow> int \<Rightarrow> nat \<Rightarrow> nat \<Rightarrow> nat \<Rightarrow> int" where
  "exNewDate y m d h mi = 0"

definition exIds :: "nat \<Rightarrow> string" where
  "exIds i = replicate (Suc i) (CHR ''x'')"

definition exStarted :: collector where
  "exStarted = startRealTimeMode (exDay + 8 * 3600000) newCollector"

text \<open>The state after the missed call at 2:15 PM has been seen in real-time mode.\<close>

definition exAfterMissed :: collector where
  "exAfterMissed = fst (checkForNewCalls exDateParse exNow exIds exStarted (Some exMissedRow))"

text \<open>The phone key of the example rows, the times 2:15 PM and 2:40 PM, the state after
  the answered call at 2:40 PM has been seen, and a state with four missed calls of the
  same number at 2:00, 2:10, 2:20 and 2:30 PM, all sent.\<close>

definition exPhone :: string where
  "exPhone = ''5551234567''"

definition exT1 :: int where
  "exT1 = exDay + 14 * 3600000 + 15 * 60000"

definition exT2 :: int where
  "exT2 = exDay + 14 * 3600000 + 40 * 60000"

definition exAfterAnswered :: collector where
  "exAfterAnswered = fst (checkForNewCalls exDateParse exNow exIds exAfterMissed (Some exAnsweredRow))"

definition exFourRows :: "row list" where
  "exFourRows =
     [exRow ''1'' ''Missed call'' ''2:00 PM'', exRow ''1'' ''Missed call'' ''2:10 PM'',
      exRow ''1'' ''Missed call'' ''2:20 PM'', exRow ''1'' ''Missed call'' ''2:30 PM'']"

definition exAfterFour :: collector where
  "exAfterFour =
     foldl (\<lambda>s r. fst (checkForNewCalls exDateParse exNow exIds s (Some r))) exStarted exFourRows"

text \<open>A missed call just before midnight, a missed call labelled yesterday afternoon next
  to a call of this morning, and the state after the bulk path has collected the missed
  call of 2:15 PM.\<close>

definition exLateRow :: row where
  "exLateRow = exRow ''0'' ''Missed call'' ''11:58 PM''"

definition exAfternoonYesterdayRow :: row where
  "exAfternoonYesterdayRow = exRow ''4'' ''Missed call'' ''Yesterday 3:00 PM''"

definition exMorningRow :: row where
  "exMorningRow = exRow ''6'' ''Missed call'' ''9:00 AM''"

definition exAfterBulk :: collector where
  "exAfterBulk = collectRecords exDateParse exNewDate exNow newCollector [exMissedRow]"

section \<open>Basic facts\<close>

lemma length_sliceLast: "length (sliceLast n xs) \<le> n"
  by (simp add: sliceLast_def)

lemma sliceLast_suffix: "\<exists>pre. xs = pre @ sliceLast n xs"
  unfolding sliceLast_def by (metis append_take_drop_id)

lemma setAdd_member [simp]: "List.member xs x \<Longrightarrow> setAdd x xs = xs"
  by (simp add: setAdd_def)

lemma setHas_setAdd: "setHas (setAdd x xs) x"
  by (simp add: setHas_def setAdd_def)

lemma setDelete_absent: "\<not> List.member xs x \<Longrightarrow> setDelete x xs = xs"
  by (simp add: setDelete_def)

text \<open>The sibling dates decide which day a date is put on, never whether a text is read.\<close>

lemma parseDateTime_None_any:
  "parseDateTime dateParse now tsText [] = None \<Longrightarrow> parseDateTime dateParse now tsText lower = None"
  by (auto simp: parseDateTime_def Let_def split: option.splits if_splits)

lemma bulkTimestamp_None:
  "parseDateTime dateParse now tsText [] = None \<Longrightarrow> parseAnyDateTime dateParse newDate now tsText = None
   \<Longrightarrow> bulkTimestamp dateParse newDate now lower tsText = None"
  by (simp add: bulkTimestamp_def parseDateTime_None_any)

section \<open>Bounded persistence\<close>

text \<open>
  C9. Every write bounds what is stored: the object written holds the last 100 or fewer
  call records, the last 300 or fewer processed indexes, the last 50 or fewer sent-record
  entries and the last 50 or fewer processed answers, each a final segment of the
  corresponding collection of the state that is saved.
\<close>

theorem saveToLocalStorage_bounds:
  "\<exists>d. localStorage (saveToLocalStorage s) = Some d \<and>
     length (sn_records d) \<le> 100 \<and> (\<exists>pre. allRecords s = pre @ sn_records d) \<and>
     length (sn_processedIndexes d) \<le> 300 \<and> (\<exists>pre. processedIndexes s = pre @ sn_processedIndexes d) \<and>
     length (sn_sentRecords d) \<le> 50 \<and> (\<exists>pre. sentRecords s = pre @ sn_sentRecords d) \<and>
     length (sn_processedAnswers d) \<le> 50 \<and> (\<exists>pre. processedAnswers s = pre @ sn_processedAnswers d)"
  by (simp add: saveToLocalStorage_def snapshotOf_def length_sliceLast sliceLast_suffix)

section \<open>Rows that are not processed\<close>

text \<open>
  C10. In real-time mode a row whose parsed timestamp is not later than the monitor start
  time is ignored: \<^verbatim>\<open>checkForNewCalls\<close> sends nothing and leaves the state as it was but
  for the count of DOM queries, so no record is created, no recent-call entry is added and
  no reconciliation runs.
\<close>

theorem checkForNewCalls_before_start:
  assumes "monitorStartTime s = Some t0"
    and "timestampText r = Some tsText"
    and "parseDateTime dateParse now tsText [] = Some ts"
    and "ts \<le> t0"
  shows "checkForNewCalls dateParse now ids s (Some r) = (s\<lparr>domQueries := domQueries s + 1\<rparr>, [])"
  using assms by (simp add: checkForNewCalls_def notAfterStart_def Let_def split: option.splits)

theorem checkForNewCalls_before_start_witness:
  "monitorStartTime (exStarted\<lparr>monitorStartTime := Some exNow\<rparr>) = Some exNow \<and>
   timestampText exMissedRow = Some ''2:15 PM'' \<and>
   parseDateTime exDateParse exNow ''2:15 PM'' [] = Some (exDay + 14 * 3600000 + 15 * 60000) \<and>
   exDay + 14 * 3600000 + 15 * 60000 \<le> exNow \<and>
   checkForNewCalls exDateParse exNow exIds (exStarted\<lparr>monitorStartTime := Some exNow\<rparr>) (Some exMissedRow)
     = (exStarted\<lparr>monitorStartTime := Some exNow, domQueries := 1\<rparr>, [])"
proof -
  have a: "monitorStartTime (exStarted\<lparr>monitorStartTime := Some exNow\<rparr>) = Some exNow" by simp
  have b: "timestampText exMissedRow = Some ''2:15 PM''" by (simp add: exMissedRow_def exRow_def)
  have c: "parseDateTime exDateParse exNow ''2:15 PM'' [] = Some (exDay + 14 * 3600000 + 15 * 60000)"
    by code_simp
  have d: "exDay + 14 * 3600000 + 15 * 60000 \<le> exNow" by (simp add: exNow_def)
  have e: "domQueries exStarted = 0" by code_simp
  show ?thesis
    using checkForNewCalls_before_start [OF a b c d, of exIds] a b c d e by simp
qed

text \<open>
  C8, as amended. A row whose timestamp text is read by no strategy produces no call
  record, no recent-call entry and no delivery. In the real-time path the state is left
  as it was but for the count of DOM queries. In the bulk path the state is left as it
  was except that the index of the row is added to the processed indexes (unless the row
  has no enclosing index, or is a call row without a sender element).
\<close>

theorem unparseable_timestamp_effect:
  assumes ts: "timestampText r = Some tsText"
    and p1: "parseDateTime dateParse now tsText [] = None"
    and p2: "parseAnyDateTime dateParse newDate now tsText = None"
  shows "checkForNewCalls dateParse now ids s (Some r) = (s\<lparr>domQueries := domQueries s + 1\<rparr>, []) \<and>
         collectRow dateParse newDate now lower s r =
           (case dataIndexAttr r of
              None \<Rightarrow> s
            | Some idx \<Rightarrow>
                if senderText r = None \<and> (isMissedCallRow r \<or> isAnsweredCallRow r) then s
                else s\<lparr>processedIndexes := setAdd idx (processedIndexes s)\<rparr>)"
proof
  show "checkForNewCalls dateParse now ids s (Some r) = (s\<lparr>domQueries := domQueries s + 1\<rparr>, [])"
    using ts p1 by (simp add: checkForNewCalls_def Let_def split: option.splits)
next
  have b: "bulkTimestamp dateParse newDate now lower tsText = None"
    using p1 p2 by (rule bulkTimestamp_None)
  show "collectRow dateParse newDate now lower s r =
           (case dataIndexAttr r of
              None \<Rightarrow> s
            | Some idx \<Rightarrow>
                if senderText r = None \<and> (isMissedCallRow r \<or> isAnsweredCallRow r) then s
                else s\<lparr>processedIndexes := setAdd idx (processedIndexes s)\<rparr>)"
    using ts b by (auto simp: collectRow_def Let_def setHas_def split: option.splits)
qed

theorem unparseable_timestamp_effect_witness:
  "timestampText exUnreadableRow = Some ''a while ago'' \<and>
   parseDateTime exDateParse exNow ''a while ago'' [] = None \<and>
   parseAnyDateTime exDateParse exNewDate exNow ''a while ago'' = None \<and>
   checkForNewCalls exDateParse exNow exIds exStarted (Some exUnreadableRow) = (exStarted\<lparr>domQueries := 1\<rparr>, []) \<and>
   collectRow exDateParse exNewDate exNow [] newCollector exUnreadableRow = newCollector\<lparr>processedIndexes := [''5'']\<rparr>"
proof -
  have a: "timestampText exUnreadableRow = Some ''a while ago''" by (simp add: exUnreadableRow_def exRow_def)
  have b: "parseDateTime exDateParse exNow ''a while ago'' [] = None" by code_simp
  have c: "parseAnyDateTime exDateParse exNewDate exNow ''a while ago'' = None" by code_simp
  have d: "domQueries exStarted = 0" by code_simp
  have e: "dataIndexAttr exUnreadableRow = Some ''5''" "senderText exUnreadableRow \<noteq> None"
    by (simp_all add: exUnreadableRow_def exRow_def)
  have f: "processedIndexes newCollector = []" by (simp add: newCollector_def)
  show ?thesis
    using unparseable_timestamp_effect [OF a b c, of exIds exStarted "[]"]
          unparseable_timestamp_effect [OF a b c, of exIds newCollector "[]"]
          a b c d e f
    by (simp add: setAdd_def)
qed

text \<open>The bulk path on a batch of one unreadable row: the dedup set of indexes changes.\<close>

theorem unparseable_row_bulk_counterexample:
  "bulkTimestamp exDateParse exNewDate exNow (lowerRowDatesOf exDateParse exNow [exUnreadableRow]) ''a while ago'' = None \<and>
   timestampText exUnreadableRow = Some ''a while ago'' \<and>
   processedIndexes newCollector = [] \<and>
   processedIndexes (collectRecords exDateParse exNewDate exNow newCollector [exUnreadableRow]) = [''5'']"
  by code_simp

section \<open>Frame facts for the delivery and reconciliation steps\<close>

lemma mapHas_mapSet: "mapHas (mapSet k v m) k"
  by (induction m) (auto simp: mapHas_def)

lemma collectRow_mode:
  "isRealTimeMode (collectRow dateParse newDate now lower s r) = isRealTimeMode s \<and>
   pendingRequests (collectRow dateParse newDate now lower s r) = pendingRequests s"
  by (simp add: collectRow_def updateRecentCalls_def Let_def split: option.splits)

lemma foldl_collectRow_mode:
  "isRealTimeMode (foldl (collectRow dateParse newDate now lower) s rows) = isRealTimeMode s \<and>
   pendingRequests (foldl (collectRow dateParse newDate now lower) s rows) = pendingRequests s"
  by (induction rows arbitrary: s) (simp_all add: collectRow_mode)

lemma checkForNewCalls_stopped:
  "\<not> isRealTimeMode s \<Longrightarrow>
     \<not> isRealTimeMode (fst (checkForNewCalls dateParse now ids s topRow)) \<and>
     pendingRequests (fst (checkForNewCalls dateParse now ids s topRow)) = pendingRequests s \<and>
     snd (checkForNewCalls dateParse now ids s topRow) = []"
  by (simp add: checkForNewCalls_def Let_def updateRecentCalls_def updateMissedCallsAfterAnswer_def
        sendToGoogleSheets_def saveToLocalStorage_def split: option.splits)

lemma onerror_effect: "onerror s rid = s\<lparr>pendingRequests := setDelete rid (pendingRequests s), errors := errors s + 1\<rparr>"
  by (simp add: onerror_def Let_def)

lemma sendUpdates_fields:
  "isRealTimeMode (fst (sendUpdates ids phone T i rs s)) = isRealTimeMode s \<and>
   allRecords (fst (sendUpdates ids phone T i rs s)) = allRecords s \<and>
   processedIndexes (fst (sendUpdates ids phone T i rs s)) = processedIndexes s \<and>
   monitorStartTime (fst (sendUpdates ids phone T i rs s)) = monitorStartTime s \<and>
   recentCalls (fst (sendUpdates ids phone T i rs s)) = recentCalls s \<and>
   sentRecords (fst (sendUpdates ids phone T i rs s)) = sentRecords s \<and>
   processedAnswers (fst (sendUpdates ids phone T i rs s)) = processedAnswers s"
  by (induction rs arbitrary: i s) (simp_all add: Let_def)

lemma sendUpdates_stopped: "\<not> isRealTimeMode s \<Longrightarrow> sendUpdates ids phone T i rs s = (s, [])"
  by (cases rs) simp_all

lemma sendUpdates_bodies:
  "isRealTimeMode s \<Longrightarrow> map body (snd (sendUpdates ids phone T i rs s)) = map (updateData phone T) rs"
  by (induction rs arbitrary: i s) (simp_all add: Let_def)

lemma update_fields:
  "isRealTimeMode (fst (updateMissedCallsAfterAnswer ids s phone T)) = isRealTimeMode s \<and>
   allRecords (fst (updateMissedCallsAfterAnswer ids s phone T)) = allRecords s \<and>
   processedIndexes (fst (updateMissedCallsAfterAnswer ids s phone T)) = processedIndexes s \<and>
   monitorStartTime (fst (updateMissedCallsAfterAnswer ids s phone T)) = monitorStartTime s \<and>
   recentCalls (fst (updateMissedCallsAfterAnswer ids s phone T)) = recentCalls s \<and>
   sentRecords (fst (updateMissedCallsAfterAnswer ids s phone T)) = sentRecords s"
  by (simp add: updateMissedCallsAfterAnswer_def Let_def saveToLocalStorage_def sendUpdates_fields)

section \<open>Reconciliation\<close>

text \<open>
  C3. Processing an answered call is idempotent per minute bucket. While monitoring is on:
  when the key \<open>(phone, minute of T)\<close> is already in the processed-answer set, the
  reconciliation step returns the state unchanged and sends no update; after any
  reconciliation step the key is in the set, whether or not a candidate was found; and a
  second step for a time in the same minute is such a no-op.
\<close>

theorem answer_processed_once:
  assumes rt: "isRealTimeMode s"
  shows "(setHas (processedAnswers s) (phone, setSeconds0 T) \<longrightarrow>
            updateMissedCallsAfterAnswer ids s phone T = (s, 0, [])) \<and>
         setHas (processedAnswers (fst (updateMissedCallsAfterAnswer ids s phone T))) (phone, setSeconds0 T) \<and>
         (setSeconds0 T' = setSeconds0 T \<longrightarrow>
            updateMissedCallsAfterAnswer ids' (fst (updateMissedCallsAfterAnswer ids s phone T)) phone T'
              = (fst (updateMissedCallsAfterAnswer ids s phone T), 0, []))"
proof -
  let ?k = "(phone, setSeconds0 T)"
  let ?s' = "fst (updateMissedCallsAfterAnswer ids s phone T)"
  have a: "setHas (processedAnswers s) ?k \<Longrightarrow> updateMissedCallsAfterAnswer ids s phone T = (s, 0, [])"
    by (simp add: updateMissedCallsAfterAnswer_def Let_def)
  have b: "setHas (processedAnswers ?s') ?k"
  proof (cases "setHas (processedAnswers s) ?k")
    case True
    then show ?thesis by (simp add: a)
  next
    case False
    then show ?thesis
      using rt by (simp add: updateMissedCallsAfterAnswer_def Let_def saveToLocalStorage_def setHas_setAdd)
  qed
  have c: "setSeconds0 T' = setSeconds0 T \<Longrightarrow>
      updateMissedCallsAfterAnswer ids' ?s' phone T' = (?s', 0, [])"
    using b by (simp add: updateMissedCallsAfterAnswer_def Let_def)
  show ?thesis using a b c by blast
qed

theorem answer_processed_once_witness:
  "isRealTimeMode exAfterAnswered \<and>
   setHas (processedAnswers exAfterAnswered) (exPhone, setSeconds0 exT2) \<and>
   setSeconds0 (exT2 + 30000) = setSeconds0 exT2 \<and>
   updateMissedCallsAfterAnswer exIds exAfterAnswered exPhone exT2 = (exAfterAnswered, 0, []) \<and>
   updateMissedCallsAfterAnswer exIds exAfterAnswered exPhone (exT2 + 30000) = (exAfterAnswered, 0, [])"
proof -
  have a: "isRealTimeMode exAfterAnswered" by code_simp
  have b: "setHas (processedAnswers exAfterAnswered) (exPhone, setSeconds0 exT2)" by code_simp
  have c: "setSeconds0 (exT2 + 30000) = setSeconds0 exT2" by code_simp
  note t = answer_processed_once [OF a, of exPhone exT2 exIds "exT2 + 30000" exIds]
  from t b have d: "updateMissedCallsAfterAnswer exIds exAfterAnswered exPhone exT2 = (exAfterAnswered, 0, [])"
    by blast
  from t c have "updateMissedCallsAfterAnswer exIds
       (fst (updateMissedCallsAfterAnswer exIds exAfterAnswered exPhone exT2)) exPhone (exT2 + 30000) =
      (fst (updateMissedCallsAfterAnswer exIds exAfterAnswered exPhone exT2), 0, [])"
    by blast
  then have e: "updateMissedCallsAfterAnswer exIds exAfterAnswered exPhone (exT2 + 30000) = (exAfterAnswered, 0, [])"
    by (simp add: d)
  show ?thesis using a b c d e by blast
qed

text \<open>
  C6. The matching window is one-sided. For an answered call at \<open>T\<close> that is reconciled,
  the candidates are the stored records of the same phone key with a sent-record entry
  whose timestamp is strictly before \<open>T\<close> and less than one hour before it; a record at or
  after \<open>T\<close> is never a candidate. The first three candidates each get one update, with
  status \<^verbatim>\<open>No\<close> and keyed on the time of the missed call, so at most three updates are sent.
\<close>

theorem reconciliation_window:
  assumes rt: "isRealTimeMode s"
    and fresh: "\<not> setHas (processedAnswers s) (phone, setSeconds0 T)"
  shows "map body (snd (snd (updateMissedCallsAfterAnswer ids s phone T)))
           = map (updateData phone T) (take 3 (affectedRecords s phone T)) \<and>
         length (snd (snd (updateMissedCallsAfterAnswer ids s phone T)))
           = min 3 (length (affectedRecords s phone T)) \<and>
         affectedRecords s phone T =
           filter (\<lambda>r. extractPhoneNumber (contact r) = phone \<and> timestamp r < T \<and>
                        T - timestamp r < 3600000 \<and> mapHas (sentRecords s) (phone, timestamp r))
             (allRecords s) \<and>
         list_all (\<lambda>q. isUpdate (body q) \<and> actualMissedCall (body q) = ''No'' \<and>
                        dateTime (body q) < T \<and> T - dateTime (body q) < 3600000)
           (snd (snd (updateMissedCallsAfterAnswer ids s phone T)))"
proof -
  let ?reqs = "snd (snd (updateMissedCallsAfterAnswer ids s phone T))"
  let ?aff = "affectedRecords s phone T"
  have reqs: "?reqs = snd (sendUpdates ids phone T 0 (take 3 ?aff) s)"
    using rt fresh by (simp add: updateMissedCallsAfterAnswer_def Let_def)
  have bodies: "map body ?reqs = map (updateData phone T) (take 3 ?aff)"
    using rt by (simp add: reqs sendUpdates_bodies)
  have len: "length ?reqs = min 3 (length ?aff)"
    using arg_cong [OF bodies, of length] by simp
  have aff: "?aff = filter (\<lambda>r. extractPhoneNumber (contact r) = phone \<and> timestamp r < T \<and>
                        T - timestamp r < 3600000 \<and> mapHas (sentRecords s) (phone, timestamp r))
             (allRecords s)"
    unfolding affectedRecords_def Let_def by (rule filter_cong) auto
  have each: "\<And>r. r \<in> set (take 3 ?aff) \<Longrightarrow> timestamp r < T \<and> T - timestamp r < 3600000"
  proof -
    fix r assume "r \<in> set (take 3 ?aff)"
    then have "r \<in> set ?aff" by (rule in_set_takeD)
    then show "timestamp r < T \<and> T - timestamp r < 3600000" by (simp add: aff)
  qed
  have "list_all (\<lambda>p. isUpdate p \<and> actualMissedCall p = ''No'' \<and> dateTime p < T \<and> T - dateTime p < 3600000)
          (map body ?reqs)"
    unfolding bodies using each by (auto simp: list_all_iff updateData_def Let_def)
  then have all: "list_all (\<lambda>q. isUpdate (body q) \<and> actualMissedCall (body q) = ''No'' \<and>
                        dateTime (body q) < T \<and> T - dateTime (body q) < 3600000) ?reqs"
    by (simp add: list_all_iff)
  show ?thesis using bodies len aff all by blast
qed

theorem reconciliation_window_witness:
  "isRealTimeMode exAfterFour \<and>
   \<not> setHas (processedAnswers exAfterFour) (exPhone, setSeconds0 exT2) \<and>
   length (affectedRecords exAfterFour exPhone exT2) = 4 \<and>
   map (\<lambda>q. dateTime (body q)) (snd (snd (updateMissedCallsAfterAnswer exIds exAfterFour exPhone exT2)))
     = [exDay + 14 * 3600000, exDay + 14 * 3600000 + 10 * 60000, exDay + 14 * 3600000 + 20 * 60000] \<and>
   length (snd (snd (updateMissedCallsAfterAnswer exIds exAfterFour exPhone exT2))) = 3"
proof -
  have a: "isRealTimeMode exAfterFour" by code_simp
  have b: "\<not> setHas (processedAnswers exAfterFour) (exPhone, setSeconds0 exT2)" by code_simp
  have c: "length (affectedRecords exAfterFour exPhone exT2) = 4" by code_simp
  have d: "map (\<lambda>p. dateTime p) (map (updateData exPhone exT2) (take 3 (affectedRecords exAfterFour exPhone exT2)))
     = [exDay + 14 * 3600000, exDay + 14 * 3600000 + 10 * 60000, exDay + 14 * 3600000 + 20 * 60000]"
    by code_simp
  note t = reconciliation_window [OF a b, of exIds]
  from t have e: "map body (snd (snd (updateMissedCallsAfterAnswer exIds exAfterFour exPhone exT2)))
           = map (updateData exPhone exT2) (take 3 (affectedRecords exAfterFour exPhone exT2))" by blast
  from t have f: "length (snd (snd (updateMissedCallsAfterAnswer exIds exAfterFour exPhone exT2))) = 3"
    using c by simp
  have g: "map (\<lambda>q. dateTime (body q)) (snd (snd (updateMissedCallsAfterAnswer exIds exAfterFour exPhone exT2)))
     = map (\<lambda>p. dateTime p) (map body (snd (snd (updateMissedCallsAfterAnswer exIds exAfterFour exPhone exT2))))"
    by (simp add: comp_def)
  show ?thesis using a b c f by (simp only: g e d simp_thms)
qed

section \<open>Completions of requests\<close>

text \<open>
  C7. Stopping monitoring turns real-time mode off and empties the set of pending
  requests, and a response that arrives afterwards is dropped: \<^verbatim>\<open>onload\<close> leaves the
  state exactly as it was, and so does a timeout. This stays so for as long as monitoring is off: neither the
  real-time check nor the bulk collection turns the mode on, adds a pending request or
  sends a request. A response whose identifier is not pending, as after a stop followed
  by a new start, changes nothing either.
\<close>

theorem stale_response_discarded:
  "(isRealTimeMode s \<longrightarrow>
      \<not> isRealTimeMode (stopRealTimeMode skipDownload s) \<and>
      pendingRequests (stopRealTimeMode skipDownload s) = [] \<and>
      onload (stopRealTimeMode skipDownload s) rid status = stopRealTimeMode skipDownload s) \<and>
   (\<not> isRealTimeMode s \<and> pendingRequests s = [] \<longrightarrow>
      onload s rid status = s \<and>
      ontimeout s rid = s \<and>
      \<not> isRealTimeMode (fst (checkForNewCalls dateParse now ids s topRow)) \<and>
      pendingRequests (fst (checkForNewCalls dateParse now ids s topRow)) = [] \<and>
      snd (checkForNewCalls dateParse now ids s topRow) = [] \<and>
      \<not> isRealTimeMode (collectRecords dateParse newDate now s rows) \<and>
      pendingRequests (collectRecords dateParse newDate now s rows) = []) \<and>
   (\<not> List.member (pendingRequests s) rid \<longrightarrow> onload s rid status = s)"
proof -
  have stale: "\<not> List.member (pendingRequests s) rid \<Longrightarrow> onload s rid status = s"
    by (simp add: onload_def setDelete_absent Let_def)
  have stop: "isRealTimeMode s \<Longrightarrow>
      \<not> isRealTimeMode (stopRealTimeMode skipDownload s) \<and>
      pendingRequests (stopRealTimeMode skipDownload s) = []"
    by (simp add: stopRealTimeMode_def clearLocalStorage_def Let_def)
  have idle: "\<And>t. \<not> isRealTimeMode t \<and> pendingRequests t = [] \<Longrightarrow> onload t rid status = t"
    by (simp add: onload_def setDelete_def Let_def)
  have idle': "\<not> isRealTimeMode s \<and> pendingRequests s = [] \<Longrightarrow> ontimeout s rid = s"
    by (simp add: ontimeout_def setDelete_def)
  have a: "isRealTimeMode s \<Longrightarrow> onload (stopRealTimeMode skipDownload s) rid status = stopRealTimeMode skipDownload s"
    using stop idle by blast
  have b: "\<not> isRealTimeMode s \<and> pendingRequests s = [] \<Longrightarrow>
      \<not> isRealTimeMode (fst (checkForNewCalls dateParse now ids s topRow)) \<and>
      pendingRequests (fst (checkForNewCalls dateParse now ids s topRow)) = [] \<and>
      snd (checkForNewCalls dateParse now ids s topRow) = []"
    using checkForNewCalls_stopped [of s dateParse now ids topRow] by simp
  have c: "\<not> isRealTimeMode s \<and> pendingRequests s = [] \<Longrightarrow>
      \<not> isRealTimeMode (collectRecords dateParse newDate now s rows) \<and>
      pendingRequests (collectRecords dateParse newDate now s rows) = []"
    by (simp add: collectRecords_def foldl_collectRow_mode)
  show ?thesis using stop idle idle' a b c stale by blast
qed

theorem stale_response_discarded_witness:
  "isRealTimeMode exAfterMissed \<and>
   pendingRequests exAfterMissed = [''x''] \<and>
   \<not> isRealTimeMode (stopRealTimeMode True exAfterMissed) \<and>
   pendingRequests (stopRealTimeMode True exAfterMissed) = [] \<and>
   onload (stopRealTimeMode True exAfterMissed) ''x'' 200 = stopRealTimeMode True exAfterMissed \<and>
   snd (checkForNewCalls exDateParse exNow exIds (stopRealTimeMode True exAfterMissed) (Some exAnsweredRow)) = [] \<and>
   pendingRequests (collectRecords exDateParse exNewDate exNow (stopRealTimeMode True exAfterMissed) [exMissedRowAgain]) = [] \<and>
   \<not> List.member (pendingRequests exAfterMissed) ''w'' \<and>
   onload exAfterMissed ''w'' 200 = exAfterMissed"
proof -
  have a: "isRealTimeMode exAfterMissed" by code_simp
  have b: "pendingRequests exAfterMissed = [''x'']" by code_simp
  note t1 = stale_response_discarded [of exAfterMissed True "''x''" 200 exDateParse exNow exIds "Some exAnsweredRow" exNewDate "[exMissedRowAgain]"]
  from t1 a have c: "\<not> isRealTimeMode (stopRealTimeMode True exAfterMissed) \<and>
      pendingRequests (stopRealTimeMode True exAfterMissed) = [] \<and>
      onload (stopRealTimeMode True exAfterMissed) ''x'' 200 = stopRealTimeMode True exAfterMissed"
    by blast
  note t2 = stale_response_discarded [of "stopRealTimeMode True exAfterMissed" True "''x''" 200 exDateParse exNow exIds "Some exAnsweredRow" exNewDate "[exMissedRowAgain]"]
  from t2 c have d: "snd (checkForNewCalls exDateParse exNow exIds (stopRealTimeMode True exAfterMissed) (Some exAnsweredRow)) = [] \<and>
   pendingRequests (collectRecords exDateParse exNewDate exNow (stopRealTimeMode True exAfterMissed) [exMissedRowAgain]) = []"
    by blast
  have e: "\<not> List.member (pendingRequests exAfterMissed) ''w''" by (simp add: b)
  note t3 = stale_response_discarded [of exAfterMissed True "''w''" 200 exDateParse exNow exIds "Some exAnsweredRow" exNewDate "[exMissedRowAgain]"]
  from t3 e have f: "onload exAfterMissed ''w'' 200 = exAfterMissed" by blast
  show ?thesis using a b c d e f by blast
qed

text \<open>
  C2, as amended. The sent-record entry of a missed call is written when the create
  request is made, before any answer of the sink. A failed create (timeout or error)
  removes the request from the pending set and, for an error, counts one error; it
  changes nothing else, so the entry stays set and no request is sent again.
\<close>

theorem failed_create_effect:
  assumes rt: "isRealTimeMode s"
  shows "mapHas (sentRecords (fst (sendToGoogleSheets rid s record False)))
           (extractPhoneNumber (contact record), timestamp record) \<and>
         snd (sendToGoogleSheets rid s record False) \<noteq> [] \<and>
         list_all (\<lambda>q. requestId q = rid \<and> \<not> isUpdate (body q)) (snd (sendToGoogleSheets rid s record False)) \<and>
         ontimeout (fst (sendToGoogleSheets rid s record False)) rid =
           (fst (sendToGoogleSheets rid s record False))
             \<lparr>pendingRequests := setDelete rid (pendingRequests (fst (sendToGoogleSheets rid s record False)))\<rparr> \<and>
         onerror (fst (sendToGoogleSheets rid s record False)) rid =
           (fst (sendToGoogleSheets rid s record False))
             \<lparr>pendingRequests := setDelete rid (pendingRequests (fst (sendToGoogleSheets rid s record False))),
              errors := errors (fst (sendToGoogleSheets rid s record False)) + 1\<rparr> \<and>
         mapHas (sentRecords (ontimeout (fst (sendToGoogleSheets rid s record False)) rid))
           (extractPhoneNumber (contact record), timestamp record) \<and>
         mapHas (sentRecords (onerror (fst (sendToGoogleSheets rid s record False)) rid))
           (extractPhoneNumber (contact record), timestamp record)"
  using rt by (simp add: sendToGoogleSheets_def Let_def mapHas_mapSet ontimeout_def onerror_def)

theorem failed_create_effect_witness:
  "isRealTimeMode exStarted \<and>
   mapHas (sentRecords (ontimeout (fst (sendToGoogleSheets ''x'' exStarted (newCallRecord exT1 ''(555)123-4567'' ''7'') False)) ''x''))
     (exPhone, exT1) \<and>
   mapHas (sentRecords (onerror (fst (sendToGoogleSheets ''x'' exStarted (newCallRecord exT1 ''(555)123-4567'' ''7'') False)) ''x''))
     (exPhone, exT1)"
proof -
  have a: "isRealTimeMode exStarted" by code_simp
  have b: "extractPhoneNumber (contact (newCallRecord exT1 ''(555)123-4567'' ''7'')) = exPhone" by code_simp
  have c: "timestamp (newCallRecord exT1 ''(555)123-4567'' ''7'') = exT1" by (simp add: newCallRecord_def)
  show ?thesis
    using failed_create_effect [OF a, of "''x''" "newCallRecord exT1 ''(555)123-4567'' ''7''"] a
    unfolding b c by blast
qed

text \<open>The create request of the example row fails: the entry of its record key is still
  there.\<close>

theorem failed_create_keeps_sent_counterexample:
  "map requestId (snd (checkForNewCalls exDateParse exNow exIds exStarted (Some exMissedRow))) = [''x''] \<and>
   map (\<lambda>q. isUpdate (body q)) (snd (checkForNewCalls exDateParse exNow exIds exStarted (Some exMissedRow))) = [False] \<and>
   \<not> mapHas (sentRecords exStarted) (exPhone, exT1) \<and>
   mapHas (sentRecords (ontimeout exAfterMissed ''x'')) (exPhone, exT1) \<and>
   mapHas (sentRecords (onerror exAfterMissed ''x'')) (exPhone, exT1)"
  by code_simp

section \<open>Timestamps labelled Yesterday\<close>

lemma isDigit_not_space: "isDigit c \<Longrightarrow> \<not> isSpace c"
  by (auto simp: isDigit_def isSpace_def)

lemma isDigit_not_Y: "isDigit c \<Longrightarrow> c \<noteq> CHR ''Y''"
  by (auto simp: isDigit_def)

lemma isDigit_not_colon: "isDigit c \<Longrightarrow> c \<noteq> CHR '':''"
  by (auto simp: isDigit_def)

lemma clock_digits:
  assumes "list_all isDigit hs" "length hs = 1 \<or> length hs = 2" "list_all isDigit ms" "length ms = 2"
  shows "clock (hs @ '':'' @ ms @ rest) = Some (parseDigits hs, parseDigits ms, rest)"
proof -
  obtain c d where ms: "ms = [c, d]"
    using assms(4) by (metis (no_types, opaque_lifting) One_nat_def Suc_1 Suc_length_conv length_0_conv)
  from assms(2) show ?thesis
  proof
    assume "length hs = 1"
    then obtain a where hs: "hs = [a]" by (metis One_nat_def Suc_length_conv length_0_conv)
    show ?thesis
      using assms(1,3) unfolding hs ms
      by (simp add: clock_def digits12_def digitsN_def isDigit_not_colon)
  next
    assume "length hs = 2"
    then obtain a b where hs: "hs = [a, b]"
      by (metis (no_types, opaque_lifting) One_nat_def Suc_1 Suc_length_conv length_0_conv)
    show ?thesis
      using assms(1,3) unfolding hs ms
      by (simp add: clock_def digits12_def digitsN_def)
  qed
qed

lemma clock_Yesterday: "clock (''Yesterday '' @ t) = None"
  by (simp add: clock_def digits12_def isDigit_def split: list.splits)

lemma yesterdayMatch_digits:
  assumes "list_all isDigit hs" "length hs = 1 \<or> length hs = 2" "list_all isDigit ms" "length ms = 2"
  shows "yesterdayMatch (''Yesterday '' @ hs @ '':'' @ ms @ rest) = Some (parseDigits hs, parseDigits ms, rest)"
proof -
  have "hs \<noteq> []" using assms(2) by auto
  then obtain a hs' where hs: "hs = a # hs'" by (cases hs) auto
  then have "isDigit a" using assms(1) by simp
  then have sp: "dropWhile isSpace (hs @ '':'' @ ms @ rest) = hs @ '':'' @ ms @ rest"
    by (simp add: hs isDigit_not_space)
  have "yesterdayAt (''Yesterday '' @ hs @ '':'' @ ms @ rest) = clock (dropWhile isSpace ('' '' @ hs @ '':'' @ ms @ rest))"
    by (simp add: yesterdayAt_def literalCI_def)
  also have "\<dots> = clock (hs @ '':'' @ ms @ rest)"
    using sp by (simp add: isSpace_def)
  also have "\<dots> = Some (parseDigits hs, parseDigits ms, rest)"
    using assms by (rule clock_digits)
  finally show ?thesis by simp
qed

lemma setHours_day: "setHours date h m = (date div dayMs) * dayMs + int h * hourMs + int m * minuteMs"
  by (simp add: setHours_def dayMs_def minus_mod_eq_div_mult)

lemma daysBefore_day: "daysBefore date (Suc 0) div dayMs = date div dayMs - 1"
  by (simp add: daysBefore_def dayMs_def)

text \<open>
  C5, as amended. A timestamp text \<^verbatim>\<open>Yesterday H:MM\<close>, with or without \<^verbatim>\<open>AM\<close> or
  \<^verbatim>\<open>PM\<close> after it, is read as that clock time on the previous calendar day, unless one
  of the sibling dates of the batch lies on today's date, whatever its clock time, in
  which case it is read as that clock time today. So \<^verbatim>\<open>Yesterday 11:50 PM\<close> next to a
  sibling row of today is today at 11:50 PM.
\<close>

theorem parseDateTime_yesterday:
  assumes "list_all isDigit hs" and "length hs = 1 \<or> length hs = 2"
    and "list_all isDigit ms" and "length ms = 2"
  shows "parseDateTime dateParse now (''Yesterday '' @ hs @ '':'' @ ms @ rest) lowerRowDates =
           Some ((now div dayMs - (if list_ex (\<lambda>d. d div dayMs = now div dayMs) lowerRowDates then 0 else 1)) * dayMs
                 + int (hours24 (parseDigits hs) (periodOf rest)) * hourMs
                 + int (parseDigits ms) * minuteMs)"
proof -
  have m: "yesterdayMatch (''Yesterday '' @ hs @ '':'' @ ms @ rest) = Some (parseDigits hs, parseDigits ms, rest)"
    using assms by (rule yesterdayMatch_digits)
  have c: "clock (''Yesterday '' @ hs @ '':'' @ ms @ rest) = None"
    by (rule clock_Yesterday)
  show ?thesis
    unfolding parseDateTime_def c m
    by (simp add: Let_def setHours_day daysBefore_day sameDate_def)
qed

theorem parseDateTime_yesterday_witness:
  "list_all isDigit ''11'' \<and> (length ''11'' = 1 \<or> length ''11'' = 2) \<and>
   list_all isDigit ''50'' \<and> length ''50'' = 2 \<and>
   timestampText exYesterdayRow = Some (''Yesterday '' @ ''11'' @ '':'' @ ''50'' @ '' PM'') \<and>
   lowerRowDatesOf exDateParse (exDay + 10 * 60000) [exYesterdayRow, exMidnightRow]
     = [exDay - 86400000 + 23 * 3600000 + 50 * 60000, exDay + 5 * 60000] \<and>
   parseDateTime exDateParse (exDay + 10 * 60000) (''Yesterday '' @ ''11'' @ '':'' @ ''50'' @ '' PM'')
       (lowerRowDatesOf exDateParse (exDay + 10 * 60000) [exYesterdayRow, exMidnightRow])
     = Some (exDay + 23 * 3600000 + 50 * 60000) \<and>
   parseDateTime exDateParse (exDay + 10 * 60000) (''Yesterday '' @ ''11'' @ '':'' @ ''50'' @ '' PM'') []
     = Some (exDay - 86400000 + 23 * 3600000 + 50 * 60000)"
proof -
  have a: "list_all isDigit ''11''" "length ''11'' = 1 \<or> length ''11'' = 2"
          "list_all isDigit ''50''" "length ''50'' = 2"
    by (simp_all add: isDigit_def)
  have b: "timestampText exYesterdayRow = Some (''Yesterday '' @ ''11'' @ '':'' @ ''50'' @ '' PM'')"
    by (simp add: exYesterdayRow_def exRow_def)
  have c: "lowerRowDatesOf exDateParse (exDay + 10 * 60000) [exYesterdayRow, exMidnightRow]
     = [exDay - 86400000 + 23 * 3600000 + 50 * 60000, exDay + 5 * 60000]"
    by code_simp
  have d: "hours24 (parseDigits ''11'') (periodOf '' PM'') = 23" "parseDigits ''50'' = 50" by code_simp+
  note t1 = parseDateTime_yesterday [OF a, of exDateParse "exDay + 10 * 60000" "'' PM''"
               "lowerRowDatesOf exDateParse (exDay + 10 * 60000) [exYesterdayRow, exMidnightRow]"]
  note t2 = parseDateTime_yesterday [OF a, of exDateParse "exDay + 10 * 60000" "'' PM''" "[]"]
  have f: "parseDateTime exDateParse (exDay + 10 * 60000) (''Yesterday '' @ ''11'' @ '':'' @ ''50'' @ '' PM'')
       (lowerRowDatesOf exDateParse (exDay + 10 * 60000) [exYesterdayRow, exMidnightRow])
     = Some (exDay + 23 * 3600000 + 50 * 60000)"
    using t1 unfolding c d by (simp add: dayMs_def hourMs_def minuteMs_def exDay_def)
  have g: "parseDateTime exDateParse (exDay + 10 * 60000) (''Yesterday '' @ ''11'' @ '':'' @ ''50'' @ '' PM'') []
     = Some (exDay - 86400000 + 23 * 3600000 + 50 * 60000)"
    using t2 unfolding d by (simp add: dayMs_def hourMs_def minuteMs_def exDay_def)
  show ?thesis using a b c f g by blast
qed

text \<open>\<^verbatim>\<open>Yesterday 3:00 PM\<close> in a batch with a row of 9:00 AM today: no sibling carries
  today's date at 3:00 PM, and the text is read as today at 3:00 PM all the same.\<close>

theorem yesterday_other_clock_time_counterexample:
  "lowerRowDatesOf exDateParse exNow [exAfternoonYesterdayRow, exMorningRow]
     = [exDay - 86400000 + 15 * 3600000, exDay + 9 * 3600000] \<and>
   \<not> list_ex (\<lambda>d. d div dayMs = exNow div dayMs \<and> d mod dayMs = 15 * 3600000)
        (lowerRowDatesOf exDateParse exNow [exAfternoonYesterdayRow, exMorningRow]) \<and>
   timestampText exAfternoonYesterdayRow = Some ''Yesterday 3:00 PM'' \<and>
   parseDateTime exDateParse exNow ''Yesterday 3:00 PM''
       (lowerRowDatesOf exDateParse exNow [exAfternoonYesterdayRow, exMorningRow])
     = Some (exDay + 15 * 3600000) \<and>
   map timestamp (allRecords (collectRecords exDateParse exNewDate exNow newCollector
                                [exAfternoonYesterdayRow, exMorningRow]))
     = [exDay + 15 * 3600000, exDay + 9 * 3600000]"
  by code_simp

section \<open>Duplicate rows\<close>

lemma updateRecentCalls_fields:
  "allRecords (updateRecentCalls now s phone ts m a) = allRecords s \<and>
   monitorStartTime (updateRecentCalls now s phone ts m a) = monitorStartTime s \<and>
   processedIndexes (updateRecentCalls now s phone ts m a) = processedIndexes s \<and>
   isRealTimeMode (updateRecentCalls now s phone ts m a) = isRealTimeMode s"
  by (simp add: updateRecentCalls_def Let_def)

lemma sendToGoogleSheets_fields:
  "allRecords (fst (sendToGoogleSheets rid s record u)) = allRecords s \<and>
   monitorStartTime (fst (sendToGoogleSheets rid s record u)) = monitorStartTime s \<and>
   processedIndexes (fst (sendToGoogleSheets rid s record u)) = processedIndexes s \<and>
   isRealTimeMode (fst (sendToGoogleSheets rid s record u)) = isRealTimeMode s"
  by (simp add: sendToGoogleSheets_def Let_def)

lemma saveToLocalStorage_fields:
  "allRecords (saveToLocalStorage s) = allRecords s \<and>
   monitorStartTime (saveToLocalStorage s) = monitorStartTime s \<and>
   processedIndexes (saveToLocalStorage s) = processedIndexes s \<and>
   isRealTimeMode (saveToLocalStorage s) = isRealTimeMode s"
  by (simp add: saveToLocalStorage_def)

lemma recordExists_keys: "recordExists s c ts = ((c, ts) \<in> set (recordKeys s))"
  by (auto simp: recordExists_def recordKeys_def list_ex_iff)

lemma checkForNewCalls_monitorStartTime:
  "monitorStartTime (fst (checkForNewCalls dateParse now ids s topRow)) = monitorStartTime s"
  by (simp add: checkForNewCalls_def Let_def updateRecentCalls_fields sendToGoogleSheets_fields
        saveToLocalStorage_fields update_fields split: option.splits)

lemma checkForNewCalls_allRecords:
  "allRecords (fst (checkForNewCalls dateParse now ids s topRow)) =
     (case topRow of
        None \<Rightarrow> allRecords s
      | Some r \<Rightarrow>
          (case dataIndexAttr r of
             None \<Rightarrow> allRecords s
           | Some idx \<Rightarrow>
               (case timestampText r of
                  None \<Rightarrow> allRecords s
                | Some tsText \<Rightarrow>
                    (case senderText r of
                       None \<Rightarrow> allRecords s
                     | Some sender \<Rightarrow>
                         (case parseDateTime dateParse now tsText [] of
                            None \<Rightarrow> allRecords s
                          | Some ts \<Rightarrow>
                              if notAfterStart s ts \<or> isAnsweredCallRow r \<or> \<not> isMissedCallRow r \<or>
                                 recordExists s (fst (separateContactInfo (trim sender) (Some r))) ts
                              then allRecords s
                              else allRecords s @ [newCallRecord ts (fst (separateContactInfo (trim sender) (Some r))) idx])))))"
  by (simp add: checkForNewCalls_def Let_def updateRecentCalls_fields sendToGoogleSheets_fields
        saveToLocalStorage_fields update_fields notAfterStart_def recordExists_def split: option.splits)

lemma checkForNewCalls_distinct:
  assumes "distinct (recordKeys s)"
  shows "distinct (recordKeys (fst (checkForNewCalls dateParse now ids s topRow)))"
  using assms
  by (auto simp: recordKeys_def checkForNewCalls_allRecords recordExists_def list_ex_iff newCallRecord_def
        split: option.splits)

text \<open>A second look at the same row adds nothing when its timestamp text is read to the
  same result as the first time.\<close>

lemma checkForNewCalls_again:
  assumes same: "map_option (\<lambda>tsText. parseDateTime dateParse' now' tsText []) (Option.bind topRow timestampText)
                 = map_option (\<lambda>tsText. parseDateTime dateParse now tsText []) (Option.bind topRow timestampText)"
  shows "allRecords (fst (checkForNewCalls dateParse' now' ids' (fst (checkForNewCalls dateParse now ids s topRow)) topRow))
           = allRecords (fst (checkForNewCalls dateParse now ids s topRow))"
proof -
  let ?s' = "fst (checkForNewCalls dateParse now ids s topRow)"
  have m: "\<And>ts. notAfterStart ?s' ts = notAfterStart s ts"
    by (simp add: notAfterStart_def checkForNewCalls_monitorStartTime)
  show ?thesis
  proof (cases topRow)
    case None
    then show ?thesis by (simp add: checkForNewCalls_allRecords)
  next
    case (Some r)
    show ?thesis
    proof (cases "timestampText r")
      case None
      with Some show ?thesis by (simp add: checkForNewCalls_allRecords split: option.splits)
    next
      case (Some tsText)
      have p: "parseDateTime dateParse' now' tsText [] = parseDateTime dateParse now tsText []"
        using same \<open>topRow = Some r\<close> Some by simp
      show ?thesis
        unfolding checkForNewCalls_allRecords [of dateParse' now' ids' ?s' topRow] m
        using \<open>topRow = Some r\<close> Some
        by (auto simp: p checkForNewCalls_allRecords recordExists_def newCallRecord_def split: option.splits)
    qed
  qed
qed

lemma collectRow_processed:
  "dataIndexAttr r = Some idx \<Longrightarrow> setHas (processedIndexes t) idx
   \<Longrightarrow> collectRow dateParse newDate now lower t r = t"
  by (simp add: collectRow_def)

lemma collectRow_marks:
  assumes "dataIndexAttr r = Some idx"
  shows "setHas (processedIndexes (collectRow dateParse newDate now lower s r)) idx \<or>
         ((timestampText r = None \<or> senderText r = None) \<and> (isMissedCallRow r \<or> isAnsweredCallRow r) \<and>
          \<not> setHas (processedIndexes s) idx)"
  using assms
  by (auto simp: collectRow_def Let_def setHas_setAdd updateRecentCalls_fields split: option.splits)

lemma collectRow_skips:
  "dataIndexAttr r = Some idx \<Longrightarrow> timestampText r = None \<or> senderText r = None
   \<Longrightarrow> isMissedCallRow r \<or> isAnsweredCallRow r \<Longrightarrow> \<not> setHas (processedIndexes s) idx
   \<Longrightarrow> collectRow dateParse newDate now lower s r = s"
  by (auto simp: collectRow_def split: option.splits)

lemma collectRow_twice:
  "allRecords (collectRow dateParse' newDate' now' lower' (collectRow dateParse newDate now lower s r) r)
     = allRecords (collectRow dateParse newDate now lower s r)"
proof (cases "dataIndexAttr r")
  case None
  then show ?thesis by (simp add: collectRow_def)
next
  case (Some idx)
  from collectRow_marks [OF Some, of dateParse newDate now lower s] show ?thesis
  proof
    assume "setHas (processedIndexes (collectRow dateParse newDate now lower s r)) idx"
    then show ?thesis using Some by (simp add: collectRow_processed)
  next
    assume a: "(timestampText r = None \<or> senderText r = None) \<and> (isMissedCallRow r \<or> isAnsweredCallRow r) \<and>
          \<not> setHas (processedIndexes s) idx"
    then have "\<And>dp nd n l. collectRow dp nd n l s r = s"
      using Some collectRow_skips by blast
    then show ?thesis by simp
  qed
qed

lemma collectRow_records:
  assumes "dataIndexAttr r = Some idx" "\<not> setHas (processedIndexes s) idx" "isMissedCallRow r"
    and "timestampText r = Some tsText" "senderText r = Some sender"
    and "bulkTimestamp dateParse newDate now lower tsText = Some ts"
  shows "allRecords (collectRow dateParse newDate now lower s r) =
           allRecords s @ [newCallRecord ts (fst (separateContactInfo (trim sender) (Some r))) idx]"
  using assms by (simp add: collectRow_def Let_def updateRecentCalls_fields)

text \<open>
  C4, as amended. In the real-time path the pairs \<^verbatim>\<open>(contact, timestamp)\<close> of the store
  stay pairwise different, and processing the identical row twice leaves the store as it
  is after the first time, provided the timestamp text of the row is read to the same
  time both times. In the bulk path processing the identical row twice adds nothing the
  second time, whatever the time of the second reading; and a row with an index not yet
  processed that has a timestamp and a sender element, shows a missed call and has a
  readable timestamp is added to the store, whether or not a record of the same contact
  and time is there already.
\<close>

theorem record_dedup_per_path:
  assumes same: "map_option (\<lambda>tsText. parseDateTime dateParse' now' tsText []) (Option.bind topRow timestampText)
                 = map_option (\<lambda>tsText. parseDateTime dateParse now tsText []) (Option.bind topRow timestampText)"
  shows "(distinct (recordKeys s) \<longrightarrow>
            distinct (recordKeys (fst (checkForNewCalls dateParse now ids s topRow)))) \<and>
         allRecords (fst (checkForNewCalls dateParse' now' ids' (fst (checkForNewCalls dateParse now ids s topRow)) topRow))
           = allRecords (fst (checkForNewCalls dateParse now ids s topRow)) \<and>
         allRecords (collectRow dateParseB' newDate' nowB' lower' (collectRow dateParseB newDate nowB lower s r) r)
           = allRecords (collectRow dateParseB newDate nowB lower s r) \<and>
         (dataIndexAttr r = Some idx \<and> \<not> setHas (processedIndexes s) idx \<and> isMissedCallRow r \<and>
          timestampText r = Some tsText \<and> senderText r = Some sender \<and>
          bulkTimestamp dateParseB newDate nowB lower tsText = Some ts \<longrightarrow>
            allRecords (collectRow dateParseB newDate nowB lower s r) =
              allRecords s @ [newCallRecord ts (fst (separateContactInfo (trim sender) (Some r))) idx])"
proof -
  have a: "distinct (recordKeys s) \<Longrightarrow>
            distinct (recordKeys (fst (checkForNewCalls dateParse now ids s topRow)))"
    by (rule checkForNewCalls_distinct)
  have b: "allRecords (fst (checkForNewCalls dateParse' now' ids' (fst (checkForNewCalls dateParse now ids s topRow)) topRow))
           = allRecords (fst (checkForNewCalls dateParse now ids s topRow))"
    using same by (rule checkForNewCalls_again)
  have c: "allRecords (collectRow dateParseB' newDate' nowB' lower' (collectRow dateParseB newDate nowB lower s r) r)
           = allRecords (collectRow dateParseB newDate nowB lower s r)"
    by (rule collectRow_twice)
  have d: "dataIndexAttr r = Some idx \<and> \<not> setHas (processedIndexes s) idx \<and> isMissedCallRow r \<and>
          timestampText r = Some tsText \<and> senderText r = Some sender \<and>
          bulkTimestamp dateParseB newDate nowB lower tsText = Some ts \<Longrightarrow>
            allRecords (collectRow dateParseB newDate nowB lower s r) =
              allRecords s @ [newCallRecord ts (fst (separateContactInfo (trim sender) (Some r))) idx]"
    using collectRow_records by blast
  show ?thesis using a b c d by blast
qed

theorem record_dedup_per_path_witness:
  "map_option (\<lambda>tsText. parseDateTime exDateParse (exNow + 60000) tsText []) (Option.bind (Some exMissedRow) timestampText)
     = map_option (\<lambda>tsText. parseDateTime exDateParse exNow tsText []) (Option.bind (Some exMissedRow) timestampText) \<and>
   distinct (recordKeys exAfterMissed) \<and>
   allRecords exAfterMissed = [newCallRecord exT1 ''(555)123-4567'' ''7''] \<and>
   allRecords (fst (checkForNewCalls exDateParse (exNow + 60000) exIds exAfterMissed (Some exMissedRow)))
     = [newCallRecord exT1 ''(555)123-4567'' ''7''] \<and>
   distinct (recordKeys (fst (checkForNewCalls exDateParse exNow exIds exAfterMissed (Some exMissedRow)))) \<and>
   dataIndexAttr exMissedRowAgain = Some ''8'' \<and> \<not> setHas (processedIndexes exAfterBulk) ''8'' \<and>
   isMissedCallRow exMissedRowAgain \<and>
   bulkTimestamp exDateParse exNewDate exNow [] ''2:15 PM'' = Some exT1 \<and>
   allRecords exAfterBulk = [newCallRecord exT1 ''(555)123-4567'' ''7''] \<and>
   allRecords (collectRow exDateParse exNewDate exNow [] exAfterBulk exMissedRowAgain)
     = [newCallRecord exT1 ''(555)123-4567'' ''7'', newCallRecord exT1 ''(555)123-4567'' ''8'']"
proof -
  have same: "map_option (\<lambda>tsText. parseDateTime exDateParse (exNow + 60000) tsText []) (Option.bind (Some exMissedRow) timestampText)
     = map_option (\<lambda>tsText. parseDateTime exDateParse exNow tsText []) (Option.bind (Some exMissedRow) timestampText)"
    by code_simp
  have first: "fst (checkForNewCalls exDateParse exNow exIds exStarted (Some exMissedRow)) = exAfterMissed"
    by (simp add: exAfterMissed_def)
  have a: "allRecords exAfterMissed = [newCallRecord exT1 ''(555)123-4567'' ''7'']" by code_simp
  have k: "distinct (recordKeys exStarted)" by code_simp
  note t1 = record_dedup_per_path [OF same, where s = exStarted and ids = exIds and ids' = exIds]
  from t1 have b: "allRecords (fst (checkForNewCalls exDateParse (exNow + 60000) exIds exAfterMissed (Some exMissedRow)))
     = [newCallRecord exT1 ''(555)123-4567'' ''7'']"
    unfolding first a by blast
  from t1 k have c0: "distinct (recordKeys exAfterMissed)" unfolding first by blast
  note t2 = record_dedup_per_path [OF same, where s = exAfterMissed and ids = exIds]
  from t2 c0 have c: "distinct (recordKeys (fst (checkForNewCalls exDateParse exNow exIds exAfterMissed (Some exMissedRow))))"
    by blast
  have d: "dataIndexAttr exMissedRowAgain = Some ''8''" "timestampText exMissedRowAgain = Some ''2:15 PM''"
          "senderText exMissedRowAgain = Some ''(555)123-4567''"
    by (simp_all add: exMissedRowAgain_def exRow_def)
  have e: "\<not> setHas (processedIndexes exAfterBulk) ''8''" by code_simp
  have f: "isMissedCallRow exMissedRowAgain" by code_simp
  have g: "bulkTimestamp exDateParse exNewDate exNow [] ''2:15 PM'' = Some exT1" by code_simp
  have h: "allRecords exAfterBulk = [newCallRecord exT1 ''(555)123-4567'' ''7'']" by code_simp
  have i: "fst (separateContactInfo (trim ''(555)123-4567'') (Some exMissedRowAgain)) = ''(555)123-4567''"
    by code_simp
  note t3 = record_dedup_per_path [OF same, where s = exAfterBulk and r = exMissedRowAgain and idx = "''8''"
              and tsText = "''2:15 PM''" and sender = "''(555)123-4567''" and ts = exT1
              and dateParseB = exDateParse and newDate = exNewDate and nowB = exNow and lower = "[]"]
  from t3 d e f g have j: "allRecords (collectRow exDateParse exNewDate exNow [] exAfterBulk exMissedRowAgain)
     = [newCallRecord exT1 ''(555)123-4567'' ''7'', newCallRecord exT1 ''(555)123-4567'' ''8'']"
    unfolding h i by simp
  show ?thesis using same a b c0 c d e f g h j by blast
qed

text \<open>A bare clock time is put on the day of the reading: the row \<^verbatim>\<open>11:58 PM\<close> seen at
  23:59 and again at 00:01 is read as two times a day apart and stored twice.\<close>

lemma realtime_row_across_midnight:
  "parseDateTime exDateParse (exDay - 60000) ''11:58 PM'' [] = Some (exDay - 2 * 60000) \<and>
   parseDateTime exDateParse (exDay + 60000) ''11:58 PM'' [] = Some (exDay + 86400000 - 2 * 60000) \<and>
   map timestamp (allRecords (fst (checkForNewCalls exDateParse (exDay + 60000) exIds
      (fst (checkForNewCalls exDateParse (exDay - 60000) exIds
              (startRealTimeMode (exDay - 3600000) newCollector) (Some exLateRow)))
      (Some exLateRow))))
     = [exDay - 2 * 60000, exDay + 86400000 - 2 * 60000]"
  by code_simp

text \<open>The bulk path on two rows of the same contact and time under different indexes:
  both are stored.\<close>

theorem bulk_duplicate_counterexample:
  "dataIndexAttr exMissedRow \<noteq> dataIndexAttr exMissedRowAgain \<and>
   recordKeys (collectRecords exDateParse exNewDate exNow newCollector [exMissedRow, exMissedRowAgain])
     = [(''(555)123-4567'', exT1), (''(555)123-4567'', exT1)] \<and>
   \<not> distinct (recordKeys (collectRecords exDateParse exNewDate exNow newCollector [exMissedRow, exMissedRowAgain]))"
  by code_simp

section \<open>An answered call after a missed call\<close>

lemma updateRecentCalls_ledger:
  "sentRecords (updateRecentCalls now s phone ts m a) = sentRecords s \<and>
   processedAnswers (updateRecentCalls now s phone ts m a) = processedAnswers s"
  by (simp add: updateRecentCalls_def Let_def)

lemma affectedRecords_single:
  assumes only: "filter (\<lambda>x. extractPhoneNumber (contact x) = phone) (allRecords s) = [record]"
    and sent: "mapHas (sentRecords s) (phone, timestamp record)"
  shows "affectedRecords s phone T2 =
           (if timestamp record < T2 \<and> T2 - timestamp record < 3600000 then [record] else [])"
proof -
  have "affectedRecords s phone T2 =
          filter (\<lambda>x. timestamp x > T2 - 60 * 60 * 1000 \<and> timestamp x < T2 \<and> mapHas (sentRecords s) (phone, timestamp x))
            (filter (\<lambda>x. extractPhoneNumber (contact x) = phone) (allRecords s))"
    unfolding affectedRecords_def Let_def filter_filter by (rule filter_cong) auto
  then show ?thesis using sent by (auto simp: only)
qed

lemma update_single:
  assumes rt: "isRealTimeMode s"
    and fresh: "\<not> setHas (processedAnswers s) (phone, setSeconds0 T2)"
    and only: "filter (\<lambda>x. extractPhoneNumber (contact x) = phone) (allRecords s) = [record]"
    and sent: "mapHas (sentRecords s) (phone, timestamp record)"
  shows "map body (snd (snd (updateMissedCallsAfterAnswer ids s phone T2))) =
           (if timestamp record < T2 \<and> T2 - timestamp record < 3600000
            then [updateData phone T2 record] else [])"
proof -
  have "snd (snd (updateMissedCallsAfterAnswer ids s phone T2))
          = snd (sendUpdates ids phone T2 0 (take 3 (affectedRecords s phone T2)) s)"
    using rt fresh by (simp add: updateMissedCallsAfterAnswer_def Let_def)
  then have "map body (snd (snd (updateMissedCallsAfterAnswer ids s phone T2)))
          = map (updateData phone T2) (take 3 (affectedRecords s phone T2))"
    using rt by (simp add: sendUpdates_bodies)
  then show ?thesis
    by (simp add: affectedRecords_single [OF only sent])
qed

lemma checkForNewCalls_answered:
  assumes "dataIndexAttr r = Some idx" "timestampText r = Some tsText" "senderText r = Some sender"
    and "parseDateTime dateParse now tsText [] = Some T2"
    and "\<not> notAfterStart s T2"
    and "isAnsweredCallRow r"
    and "extractPhoneNumber (fst (separateContactInfo (trim sender) (Some r))) = phone"
  shows "snd (checkForNewCalls dateParse now ids s (Some r)) =
           snd (snd (updateMissedCallsAfterAnswer ids
                  (updateRecentCalls now (s\<lparr>domQueries := domQueries s + 1\<rparr>) phone T2
                     (isMissedCallRow r) True) phone T2))"
  using assms by (simp add: checkForNewCalls_def Let_def notAfterStart_def)

text \<open>
  C1, as amended. Monitoring is on, the store holds one record of phone key \<open>P\<close>, a
  missed call at \<open>T1\<close> with a sent-record entry, and an answered row of \<open>P\<close> with time
  \<open>T2\<close> later than the monitor start is seen whose minute has not been reconciled yet.
  If \<open>T1 < T2\<close> and \<open>T2 - T1\<close> is less than one hour, exactly one update is sent; it
  carries the status \<^verbatim>\<open>No\<close> and the time \<open>T1\<close> of the missed call as its key. Otherwise,
  in particular when \<open>T2 - T1\<close> is one hour or more, no update is sent.
\<close>

theorem answer_within_hour_update:
  assumes rt: "isRealTimeMode s"
    and fresh: "\<not> setHas (processedAnswers s) (phone, setSeconds0 T2)"
    and only: "filter (\<lambda>x. extractPhoneNumber (contact x) = phone) (allRecords s) = [record]"
    and sent: "mapHas (sentRecords s) (phone, timestamp record)"
    and row: "dataIndexAttr r = Some idx" "timestampText r = Some tsText" "senderText r = Some sender"
    and time: "parseDateTime dateParse now tsText [] = Some T2"
    and later: "\<not> notAfterStart s T2"
    and answered: "isAnsweredCallRow r"
    and key: "extractPhoneNumber (fst (separateContactInfo (trim sender) (Some r))) = phone"
  shows "map body (snd (checkForNewCalls dateParse now ids s (Some r))) =
           (if timestamp record < T2 \<and> T2 - timestamp record < 3600000
            then [updateData phone T2 record] else []) \<and>
         dateTime (updateData phone T2 record) = timestamp record \<and>
         actualMissedCall (updateData phone T2 record) = ''No'' \<and>
         isUpdate (updateData phone T2 record)"
proof -
  let ?s1 = "updateRecentCalls now (s\<lparr>domQueries := domQueries s + 1\<rparr>) phone T2 (isMissedCallRow r) True"
  have rt1: "isRealTimeMode ?s1" using rt by (simp add: updateRecentCalls_fields)
  have fresh1: "\<not> setHas (processedAnswers ?s1) (phone, setSeconds0 T2)"
    using fresh by (simp add: updateRecentCalls_ledger)
  have only1: "filter (\<lambda>x. extractPhoneNumber (contact x) = phone) (allRecords ?s1) = [record]"
    using only by (simp add: updateRecentCalls_fields)
  have sent1: "mapHas (sentRecords ?s1) (phone, timestamp record)"
    using sent by (simp add: updateRecentCalls_ledger)
  have "snd (checkForNewCalls dateParse now ids s (Some r)) =
          snd (snd (updateMissedCallsAfterAnswer ids ?s1 phone T2))"
    using row time later answered key by (rule checkForNewCalls_answered)
  then have "map body (snd (checkForNewCalls dateParse now ids s (Some r))) =
           (if timestamp record < T2 \<and> T2 - timestamp record < 3600000
            then [updateData phone T2 record] else [])"
    by (simp only: update_single [OF rt1 fresh1 only1 sent1])
  then show ?thesis by (simp add: updateData_def Let_def)
qed

theorem answer_within_hour_update_witness:
  "isRealTimeMode exAfterMissed \<and>
   \<not> setHas (processedAnswers exAfterMissed) (exPhone, setSeconds0 exT2) \<and>
   filter (\<lambda>x. extractPhoneNumber (contact x) = exPhone) (allRecords exAfterMissed)
     = [newCallRecord exT1 ''(555)123-4567'' ''7''] \<and>
   mapHas (sentRecords exAfterMissed) (exPhone, exT1) \<and>
   parseDateTime exDateParse exNow ''2:40 PM'' [] = Some exT2 \<and>
   \<not> notAfterStart exAfterMissed exT2 \<and>
   isAnsweredCallRow exAnsweredRow \<and>
   exT1 < exT2 \<and> exT2 - exT1 < 3600000 \<and>
   map body (snd (checkForNewCalls exDateParse exNow exIds exAfterMissed (Some exAnsweredRow)))
     = [updateData exPhone exT2 (newCallRecord exT1 ''(555)123-4567'' ''7'')]"
proof -
  let ?rec = "newCallRecord exT1 ''(555)123-4567'' ''7''"
  have a: "isRealTimeMode exAfterMissed" by code_simp
  have b: "\<not> setHas (processedAnswers exAfterMissed) (exPhone, setSeconds0 exT2)" by code_simp
  have c: "filter (\<lambda>x. extractPhoneNumber (contact x) = exPhone) (allRecords exAfterMissed) = [?rec]"
    by code_simp
  have ts: "timestamp ?rec = exT1" by (simp add: newCallRecord_def)
  have d: "mapHas (sentRecords exAfterMissed) (exPhone, timestamp ?rec)" unfolding ts by code_simp
  have e: "dataIndexAttr exAnsweredRow = Some ''9''" "timestampText exAnsweredRow = Some ''2:40 PM''"
          "senderText exAnsweredRow = Some ''(555)123-4567''"
    by (simp_all add: exAnsweredRow_def exRow_def)
  have f: "parseDateTime exDateParse exNow ''2:40 PM'' [] = Some exT2" by code_simp
  have g: "\<not> notAfterStart exAfterMissed exT2" by code_simp
  have h: "isAnsweredCallRow exAnsweredRow" by code_simp
  have i: "extractPhoneNumber (fst (separateContactInfo (trim ''(555)123-4567'') (Some exAnsweredRow))) = exPhone"
    by code_simp
  have j: "exT1 < exT2" "exT2 - exT1 < 3600000" by (simp_all add: exT1_def exT2_def)
  note t = answer_within_hour_update [OF a b c d e f g h i, of exIds]
  from t j have k: "map body (snd (checkForNewCalls exDateParse exNow exIds exAfterMissed (Some exAnsweredRow)))
     = [updateData exPhone exT2 ?rec]"
    by (simp add: ts)
  show ?thesis using a b c d f g h j k unfolding ts by blast
qed

text \<open>The missed call at 2:15 PM has been sent; the call is answered at 3:15 PM, one hour
  later to the millisecond: no update is sent.\<close>

theorem answer_after_exactly_one_hour_counterexample:
  "isRealTimeMode exAfterMissed \<and>
   \<not> setHas (processedAnswers exAfterMissed) (exPhone, setSeconds0 (exT1 + 3600000)) \<and>
   allRecords exAfterMissed = [newCallRecord exT1 ''(555)123-4567'' ''7''] \<and>
   mapHas (sentRecords exAfterMissed) (exPhone, exT1) \<and>
   isAnsweredCallRow exAnsweredRowLate \<and>
   parseDateTime exDateParse exNow ''3:15 PM'' [] = Some (exT1 + 3600000) \<and>
   extractPhoneNumber (fst (separateContactInfo (trim ''(555)123-4567'') (Some exAnsweredRowLate))) = exPhone \<and>
   snd (checkForNewCalls exDateParse exNow exIds exAfterMissed (Some exAnsweredRowLate)) = []"
  by code_simp

end
